theory Spec2Isabelle
  imports Complex_Main
begin

section \<open>Values and platform functions\<close>

text \<open>
  The poller server (the Node.js module with \<open>pollStats\<close>, \<open>handlePoll\<close> and the
  HTTP server) is embedded function by function. A JavaScript string is a list of
  code units; the model keeps the code units below 256, one \<open>char\<close> each. Values that
  come back from \<open>JSON.parse\<close> are \<open>json\<close>; a property that is absent
  (\<open>undefined\<close>) is \<open>None\<close>.
\<close>

datatype json =
    JNull
  | JBool bool
  | JNum rat
  | JStr string
  | JArr "json list"
  | JObj "(string \<times> json) list"

text \<open>\<open>new URL(s)\<close>: the two members the code reads, \<open>protocol\<close> and \<open>toString()\<close>.\<close>

record url =
  protocol :: string
  href :: string

text \<open>
  Library functions the module imports and does not define: the WHATWG URL parser
  (\<open>None\<close> when the constructor throws), the SHA-256 hex digest of \<open>node:crypto\<close>,
  \<open>JSON.parse\<close> (\<open>Inl\<close> carries the message of the SyntaxError), \<open>String(v)\<close>
  on a value that is not a string, \<open>JSON.stringify\<close>, and the regular-expression
  engine on the three patterns of the module: the matches of the anchor pattern (the
  \<open>href\<close> group and the inner markup), the matches of the bare-URL pattern, and the
  replacement of every tag and every run of white space by one space; and
  \<open>new Date(d).toISOString()\<close>, \<open>None\<close> when it throws the RangeError of an invalid
  date.
\<close>

record lib =
  URL_parse :: "string \<Rightarrow> url option"
  sha256_hex :: "string \<Rightarrow> string"
  JSON_parse :: "string \<Rightarrow> string + json"
  String_nonstr :: "json \<Rightarrow> string"
  JSON_stringify :: "json \<Rightarrow> string"
  regex_anchors :: "string \<Rightarrow> (string \<times> string) list"
  regex_urls :: "string \<Rightarrow> string list"
  strip_tags :: "string \<Rightarrow> string"
  Date_toISOString :: "string \<Rightarrow> string option"

text \<open>
  The constants read from the environment at start-up. \<open>ai\<close> tells whether the client
  of the model was built, that is whether \<open>GEMINI_API_KEY\<close> is set.
\<close>

record config =
  ai :: bool
  GEMINI_MODEL :: string
  MAX_LINKS_PER_EMAIL :: nat
  MAX_EMAIL_TEXT_CHARS :: nat
  MAX_DESCRIPTION_CHARS :: nat
  POLL_TIMEOUT_MS :: nat

section \<open>String helpers\<close>

text \<open>
  White space for \<open>trim()\<close> and upper case for \<open>toLowerCase()\<close>, on the code units
  below 256: tab to carriage return, space and no-break space; the letters A to Z and
  the accented capitals, which lie 32 below their lower-case forms.
\<close>

definition isWhite :: "char \<Rightarrow> bool" where
  "isWhite c = (let n = (of_char c :: nat) in (9 \<le> n \<and> n \<le> 13) \<or> n = 32 \<or> n = 160)"

definition trim :: "string \<Rightarrow> string" where
  "trim s = rev (dropWhile isWhite (rev (dropWhile isWhite s)))"

definition isUpper :: "char \<Rightarrow> bool" where
  "isUpper c = (let n = (of_char c :: nat) in
     (65 \<le> n \<and> n \<le> 90) \<or> (192 \<le> n \<and> n \<le> 222 \<and> n \<noteq> 215))"

definition toLowerChar :: "char \<Rightarrow> char" where
  "toLowerChar c = (if isUpper c then char_of ((of_char c :: nat) + 32) else c)"

definition toLowerCase :: "string \<Rightarrow> string" where
  "toLowerCase s = map toLowerChar s"

definition startsWith :: "string \<Rightarrow> string \<Rightarrow> bool" where
  "startsWith s k = (take (length k) s = k)"

text \<open>\<open>s.includes(k)\<close>: \<open>k\<close> occurs in \<open>s\<close> as a contiguous run.\<close>

fun js_includes :: "string \<Rightarrow> string \<Rightarrow> bool" where
  "js_includes [] k = (k = [])"
| "js_includes (c # cs) k = (startsWith (c # cs) k \<or> js_includes cs k)"

text \<open>\<open>parts.join(sep)\<close>.\<close>

fun js_join :: "string \<Rightarrow> string list \<Rightarrow> string" where
  "js_join sep [] = []"
| "js_join sep [x] = x"
| "js_join sep (x # y # ys) = x @ sep @ js_join sep (y # ys)"

text \<open>\<open>a || b\<close> on values that are a string or null: null and the empty string are falsy.\<close>

definition js_or :: "string option \<Rightarrow> string option \<Rightarrow> string option" where
  "js_or a b = (case a of Some (c # cs) \<Rightarrow> Some (c # cs) | _ \<Rightarrow> b)"

text \<open>\<open>typeof v === "string"\<close> on a property that may be absent.\<close>

fun strOf :: "json option \<Rightarrow> string option" where
  "strOf (Some (JStr s)) = Some s"
| "strOf _ = None"

text \<open>\<open>v?.key\<close>: only an object has own properties.\<close>

fun getProp :: "json option \<Rightarrow> string \<Rightarrow> json option" where
  "getProp (Some (JObj kvs)) k = map_of kvs k"
| "getProp _ k = None"

section \<open>Normalisers\<close>

text \<open>\<open>normalizeString(value, fallback)\<close>; \<open>None\<close> is a value that is not a string.\<close>

definition normalizeString :: "string option \<Rightarrow> string \<Rightarrow> string" where
  "normalizeString v fallback =
     (case v of
        None \<Rightarrow> fallback
      | Some s \<Rightarrow> (let trimmed = trim s in if length trimmed > 0 then trimmed else fallback))"

text \<open>\<open>normalizeUrl(value)\<close>; the result \<open>None\<close> is null.\<close>

definition normalizeUrl :: "lib \<Rightarrow> string option \<Rightarrow> string option" where
  "normalizeUrl L v =
     (case v of
        None \<Rightarrow> None
      | Some s \<Rightarrow>
          (let candidate = trim s in
           if candidate = [] then None
           else (case URL_parse L candidate of
                   None \<Rightarrow> None
                 | Some parsed \<Rightarrow>
                     if protocol parsed \<notin> {''http:'', ''https:''} then None
                     else Some (href parsed))))"

text \<open>\<open>String(value)\<close>.\<close>

fun js_String :: "lib \<Rightarrow> json \<Rightarrow> string" where
  "js_String L (JStr s) = s"
| "js_String L v = String_nonstr L v"

text \<open>
  The loop of \<open>normalizeStringArray\<close>: \<open>acc\<close> is the Set in insertion order, the loop
  breaks once it holds \<open>max\<close> entries.
\<close>

fun normalizeStringArray_loop :: "nat \<Rightarrow> string list \<Rightarrow> string list \<Rightarrow> string list" where
  "normalizeStringArray_loop mx [] acc = acc"
| "normalizeStringArray_loop mx (v # vs) acc =
     (let normalized = normalizeString (Some (toLowerCase v)) [] in
      if normalized = [] then normalizeStringArray_loop mx vs acc
      else (let acc' = (if normalized \<in> set acc then acc else acc @ [normalized]) in
            if length acc' \<ge> mx then acc' else normalizeStringArray_loop mx vs acc'))"

text \<open>\<open>normalizeStringArray(values, max)\<close>; \<open>None\<close> is a value that is not an array.\<close>

definition normalizeStringArray :: "lib \<Rightarrow> json list option \<Rightarrow> nat \<Rightarrow> string list" where
  "normalizeStringArray L values mx =
     (case values of
        None \<Rightarrow> []
      | Some vs \<Rightarrow> normalizeStringArray_loop mx (map (js_String L) vs) [])"

text \<open>\<open>Array.isArray(v)\<close> on a property that may be absent.\<close>

fun arrOf :: "json option \<Rightarrow> json list option" where
  "arrOf (Some (JArr vs)) = Some vs"
| "arrOf _ = None"

record link =
  link_url :: string
  link_text :: string

text \<open>
  The loop of \<open>dedupeLinks\<close>: \<open>acc\<close> is the Map in insertion order. A link whose URL
  does not normalise is skipped before the size test.
\<close>

fun dedupeLinks_loop :: "lib \<Rightarrow> nat \<Rightarrow> link list \<Rightarrow> link list \<Rightarrow> link list" where
  "dedupeLinks_loop L maxLinks [] acc = acc"
| "dedupeLinks_loop L maxLinks (l # ls) acc =
     (case js_or (normalizeUrl L (Some (link_url l))) None of
        None \<Rightarrow> dedupeLinks_loop L maxLinks ls acc
      | Some u \<Rightarrow>
          (let acc' = (if u \<in> link_url ` set acc then acc
                       else acc @ [\<lparr>link_url = u,
                                    link_text = normalizeString (Some (link_text l)) []\<rparr>]) in
           if length acc' \<ge> maxLinks then acc' else dedupeLinks_loop L maxLinks ls acc'))"

definition dedupeLinks :: "lib \<Rightarrow> config \<Rightarrow> link list \<Rightarrow> link list" where
  "dedupeLinks L C links = dedupeLinks_loop L (MAX_LINKS_PER_EMAIL C) links []"

text \<open>\<open>truncate(text, maxChars)\<close>.\<close>

definition truncate_str :: "string \<Rightarrow> nat \<Rightarrow> string" where
  "truncate_str txt maxChars =
     (if txt = [] then []
      else if length txt \<le> maxChars then txt
      else take maxChars txt @ ''...'')"

section \<open>Relevance filter\<close>

definition DEFAULT_KEYWORDS :: "string list" where
  "DEFAULT_KEYWORDS = [''Indeed'', ''linkedin'', ''glassdoor'']"

record emailContext =
  messageId :: string
  subject :: string
  from_hdr :: string
  receivedAt :: "string option"
  textBody :: string
  htmlBody :: string
  links :: "link list"

text \<open>\<open>keywordMatch({ subject, textBody }, keywords, matchInBody)\<close>.\<close>

definition keywordMatch :: "emailContext \<Rightarrow> string list \<Rightarrow> bool \<Rightarrow> bool" where
  "keywordMatch e keywords matchInBody =
     (let subjectLower = toLowerCase (subject e) in
      if list_ex (\<lambda>keyword. js_includes subjectLower keyword) keywords then True
      else if \<not> matchInBody then False
      else (let bodyLower = toLowerCase (textBody e) in
            list_ex (\<lambda>keyword. js_includes bodyLower keyword) keywords))"

text \<open>\<open>[...new Set(xs)]\<close>: the first occurrence of each element, in order.\<close>

fun uniq_loop :: "string list \<Rightarrow> string list \<Rightarrow> string list" where
  "uniq_loop [] acc = acc"
| "uniq_loop (x # xs) acc = uniq_loop xs (if x \<in> set acc then acc else acc @ [x])"

text \<open>
  The keyword list \<open>handlePoll\<close> computes for an integration; \<open>job_keywords\<close> is the
  \<open>TEXT[]\<close> column, \<open>None\<close> when it is not an array.
\<close>

definition effectiveKeywords :: "string list option \<Rightarrow> string list" where
  "effectiveKeywords job_keywords =
     (case job_keywords of
        None \<Rightarrow> DEFAULT_KEYWORDS
      | Some ks \<Rightarrow>
          if length ks > 0
          then uniq_loop (filter (\<lambda>k. k \<noteq> []) (map (\<lambda>k. toLowerCase (trim k)) ks)) []
          else DEFAULT_KEYWORDS)"

definition matchInBody_of :: "string \<Rightarrow> bool" where
  "matchInBody_of keyword_match_scope = (keyword_match_scope = ''subject_or_body'')"

section \<open>Fingerprint\<close>

record opportunity =
  job_title :: string
  company :: string
  location :: string
  description :: string
  required_skills :: "string list"
  posting_url :: "string option"
  apply_url :: "string option"
  confidence :: "rat option"
  raw :: json

text \<open>\<open>buildJobFingerprint(emailId, opportunity)\<close>.\<close>

definition fingerprintDescriptor :: "lib \<Rightarrow> string \<Rightarrow> 'a opportunity_scheme \<Rightarrow> string" where
  "fingerprintDescriptor L emailId opp =
     js_join ''|''
       [normalizeString (Some emailId) [],
        toLowerCase (normalizeString (Some (job_title opp)) []),
        toLowerCase (normalizeString (Some (company opp)) []),
        (case js_or (normalizeUrl L (apply_url opp)) (js_or (normalizeUrl L (posting_url opp)) None) of
           Some u \<Rightarrow> u
         | None \<Rightarrow> take 320 (toLowerCase (normalizeString (Some (description opp)) [])))]"

definition buildJobFingerprint :: "lib \<Rightarrow> string \<Rightarrow> 'a opportunity_scheme \<Rightarrow> string" where
  "buildJobFingerprint L emailId opp = sha256_hex L (fingerprintDescriptor L emailId opp)"

section \<open>Thrown values\<close>

text \<open>
  A thrown JavaScript value: an \<open>Error\<close> instance (its \<open>name\<close>, its \<open>message\<close> and
  the \<open>authenticationFailed\<close> flag the IMAP client sets), or any other value.
\<close>

datatype thrown =
    ErrorObj string string bool
  | NonError json

text \<open>JavaScript truthiness of a parsed value.\<close>

fun truthy :: "json \<Rightarrow> bool" where
  "truthy JNull = False"
| "truthy (JBool b) = b"
| "truthy (JNum n) = (n \<noteq> 0)"
| "truthy (JStr s) = (s \<noteq> [])"
| "truthy (JArr vs) = True"
| "truthy (JObj kvs) = True"

text \<open>\<open>serializeError(err)\<close>.\<close>

fun serializeError :: "lib \<Rightarrow> thrown \<Rightarrow> string" where
  "serializeError L (ErrorObj nm msg af) = msg"
| "serializeError L (NonError v) =
     (if \<not> truthy v then ''Unknown error''
      else (case v of JStr s \<Rightarrow> s | _ \<Rightarrow> JSON_stringify L v))"

text \<open>\<open>String(err)\<close>; an \<open>Error\<close> prints as \<open>name: message\<close>.\<close>

fun errorToString :: "lib \<Rightarrow> thrown \<Rightarrow> string" where
  "errorToString L (ErrorObj nm msg af) =
     (if nm = [] then msg else if msg = [] then nm else nm @ '': '' @ msg)"
| "errorToString L (NonError v) = js_String L v"

text \<open>
  \<open>err?.message || String(err)\<close>. A truthy \<open>message\<close> that is not a string is pushed
  as it is by the code; the model records its \<open>String\<close>.
\<close>

fun messageOrString :: "lib \<Rightarrow> thrown \<Rightarrow> string" where
  "messageOrString L (ErrorObj nm msg af) =
     (if msg \<noteq> [] then msg else errorToString L (ErrorObj nm msg af))"
| "messageOrString L (NonError v) =
     (case getProp (Some v) ''message'' of
        Some m \<Rightarrow> if truthy m then js_String L m else js_String L v
      | None \<Rightarrow> js_String L v)"

text \<open>\<open>err?.authenticationFailed\<close>.\<close>

fun authenticationFailed :: "thrown \<Rightarrow> bool" where
  "authenticationFailed (ErrorObj nm msg af) = af"
| "authenticationFailed (NonError v) =
     (case getProp (Some v) ''authenticationFailed'' of Some f \<Rightarrow> truthy f | None \<Rightarrow> False)"

section \<open>Data of a run\<close>

text \<open>
  What \<open>ai.models.generateContent\<close> resolves to: \<open>response.text\<close>, the \<open>text\<close> of each
  part of the first candidate (\<open>None\<close> when the chain of optional accesses ends in
  undefined) and the candidate's \<open>urlContextMetadata\<close>.
\<close>

record apiResponse =
  resp_text :: "json option"
  resp_parts :: "json option list option"
  resp_urlContextMetadata :: "json option"

record generated =
  parsed :: json
  response :: apiResponse
  responseText :: string

record enriched = opportunity +
  enrichment_status :: string
  enrichment_error :: "string option"
  url_context_metadata :: "json option"

text \<open>A row of \<open>user_integrations\<close>, as \<open>handlePoll\<close> destructures it.\<close>

record integration =
  user_id :: string
  imap_host :: string
  imap_port :: "nat option"
  imap_user :: string
  imap_password_encrypted :: string
  encryption_iv :: string
  job_keywords :: "string list option"
  keyword_match_scope :: string
  max_emails_per_sync :: "int option"

text \<open>The members of the IMAP envelope that \<open>parseMessage\<close> reads.\<close>

record envelope =
  env_subject :: "string option"
  env_from_name :: "string option"
  env_from_address :: "string option"
  env_date :: "string option"
  env_messageId :: "string option"

record rawMessage =
  uid :: nat
  msg_envelope :: envelope
  sourceBuffer :: string

text \<open>The members of the \<open>simpleParser\<close> result that \<open>parseMessage\<close> reads.\<close>

record parsedMail =
  mail_subject :: "string option"
  mail_from_text :: "string option"
  mail_date :: "string option"
  mail_messageId :: "string option"
  mail_text :: "string option"
  mail_html :: "string option"

text \<open>The \<open>jobData\<close> object \<open>handlePoll\<close> inserts into \<open>jobs\<close>.\<close>

record jobData =
  d_email_id :: string
  d_user_id :: string
  d_job_fingerprint :: string
  d_job_title :: string
  d_company :: string
  d_location :: string
  d_description :: string
  d_job_link :: string
  d_posting_url :: "string option"
  d_apply_url :: "string option"
  d_source_subject :: string
  d_source_from :: string
  d_source_received_at :: "string option"
  d_source_message_uid :: nat
  d_source_links :: "link list"
  d_status :: string
  d_extracted_skills :: "string list"
  d_extraction_model :: string
  d_extraction_confidence :: "rat option"
  d_raw_extraction :: "json option"
  d_raw_enrichment_status :: "string option"
  d_raw_enrichment_error :: "string option"
  d_raw_url_context_metadata :: "json option"
  d_parse_status :: string
  d_parse_error :: "string option"

record resumeRow =
  r_job_id :: "json option"
  r_user_id :: string
  r_resume_json :: json
  r_resume_pdf_url :: string

text \<open>What a generation request is built from; the prompt is a function of it.\<close>

datatype genRequest =
    ExtractionRequest emailContext
  | EnrichmentRequest opportunity "string list"

text \<open>The writes a run performs, in order: the record of what was asked of the stores.\<close>

datatype call =
    InsertJob jobData
  | InsertResume resumeRow
  | MarkAsRead "nat list"

record pollStats =
  running :: bool
  integrationsFound :: nat
  emailsScanned :: nat
  emailsKeywordMatched :: nat
  opportunitiesExtracted :: nat
  jobsInserted :: nat
  duplicateJobs :: nat
  resumesGenerated :: nat
  resumesFailed :: nat
  errors :: "string list"

text \<open>
  The state a run works on: the \<open>pollStats\<close> object, the state \<open>world\<close> of everything
  outside the process (mailbox, database, model, storage) and the writes made so far.
\<close>

record 'w run = pollStats +
  world :: 'w
  calls :: "call list"

text \<open>
  The operations awaited on the outside. Each takes the state of the outside and
  returns the new one. \<open>Inl\<close> is a thrown value for the operations that throw
  (\<open>decrypt\<close>, \<open>imapFetchUnread\<close>, \<open>simpleParser\<close>, \<open>generateContent\<close>,
  \<open>produceResumePdf\<close>, \<open>imapMarkAsRead\<close>) and the \<open>error\<close> member of the result for
  the database queries, which resolve and do not throw. \<open>produceResumePdf\<close> stands for
  \<open>generateTailoredResume\<close>, \<open>renderResumePdf\<close> and \<open>uploadResumePdf\<close> in sequence and
  returns the resume document and the public URL.
\<close>

record 'w ext =
  createClient :: "thrown option"
  selectIntegrations :: "'w \<Rightarrow> (thrown + integration list option) \<times> 'w"
  decrypt :: "'w \<Rightarrow> string \<Rightarrow> string \<Rightarrow> (thrown + string) \<times> 'w"
  selectBaseProfile :: "'w \<Rightarrow> string \<Rightarrow> (thrown + json option) \<times> 'w"
  imapFetchUnread :: "'w \<Rightarrow> integration \<Rightarrow> string \<Rightarrow> int \<Rightarrow> (thrown + rawMessage list) \<times> 'w"
  simpleParser :: "'w \<Rightarrow> string \<Rightarrow> (thrown + parsedMail) \<times> 'w"
  countJobsForEmail :: "'w \<Rightarrow> string \<Rightarrow> string \<Rightarrow> (thrown + nat option) \<times> 'w"
  generateContent :: "'w \<Rightarrow> genRequest \<Rightarrow> (thrown + apiResponse) \<times> 'w"
  selectJob :: "'w \<Rightarrow> string \<Rightarrow> string \<Rightarrow> string \<Rightarrow> (thrown + json option) \<times> 'w"
  insertJob :: "'w \<Rightarrow> jobData \<Rightarrow> (thrown + json) \<times> 'w"
  produceResumePdf :: "'w \<Rightarrow> json \<Rightarrow> enriched \<Rightarrow> json \<Rightarrow> (thrown + json \<times> string) \<times> 'w"
  insertResume :: "'w \<Rightarrow> resumeRow \<Rightarrow> thrown option \<times> 'w"
  imapMarkAsRead :: "'w \<Rightarrow> integration \<Rightarrow> string \<Rightarrow> nat list \<Rightarrow> thrown option \<times> 'w"

section \<open>Structured generation\<close>

text \<open>\<open>generateStructuredJson({ prompt, schema, tools })\<close>.\<close>

definition generateStructuredJson ::
  "lib \<Rightarrow> config \<Rightarrow> 'w ext \<Rightarrow> genRequest \<Rightarrow> 'w \<Rightarrow> (thrown + generated) \<times> 'w" where
  "generateStructuredJson L C X req w =
     (if \<not> ai C then (Inl (ErrorObj ''Error'' ''GEMINI_API_KEY is not set'' False), w)
      else (case generateContent X w req of
              (Inl e, w') \<Rightarrow> (Inl e, w')
            | (Inr resp, w') \<Rightarrow>
                (let text0 = normalizeString (strOf (resp_text resp)) [];
                     text1 = (if text0 \<noteq> [] then text0
                              else normalizeString
                                     (map_option
                                        (\<lambda>parts. js_join [CHR 0x0A]
                                           (filter (\<lambda>t. t \<noteq> [])
                                              (map (\<lambda>part. normalizeString (strOf part) []) parts)))
                                        (resp_parts resp)) [])
                 in if text1 = []
                    then (Inl (ErrorObj ''Error'' ''Gemini returned an empty response'' False), w')
                    else (case JSON_parse L text1 of
                            Inl msg \<Rightarrow>
                              (Inl (ErrorObj ''Error''
                                      (''Gemini returned invalid JSON: '' @
                                       serializeError L (ErrorObj ''SyntaxError'' msg False))
                                      False), w')
                          | Inr v \<Rightarrow>
                              (Inr \<lparr>parsed = v, response = resp, responseText = text1\<rparr>, w')))))"

section \<open>Opportunity extraction\<close>

text \<open>\<open>from.split("<")[0]\<close>.\<close>

definition beforeAngle :: "string \<Rightarrow> string" where
  "beforeAngle s = takeWhile (\<lambda>c. c \<noteq> CHR ''<'') s"

text \<open>\<open>links[0]?.url || null\<close>.\<close>

definition firstLinkUrl :: "link list \<Rightarrow> string option" where
  "firstLinkUrl ls = (case ls of [] \<Rightarrow> None | l # _ \<Rightarrow> js_or (Some (link_url l)) None)"

definition FALLBACK_CONFIDENCE :: rat where
  "FALLBACK_CONFIDENCE = 35 / 100"

text \<open>\<open>buildFallbackOpportunity({ messageId, subject, from, textBody, links })\<close>.\<close>

definition buildFallbackOpportunity :: "config \<Rightarrow> emailContext \<Rightarrow> opportunity list" where
  "buildFallbackOpportunity C e =
     [\<lparr>job_title = subject e,
       company = normalizeString (Some (beforeAngle (from_hdr e))) (from_hdr e),
       location = ''Unknown'',
       description = truncate_str (textBody e) (MAX_DESCRIPTION_CHARS C),
       required_skills = [],
       posting_url = firstLinkUrl (links e),
       apply_url = firstLinkUrl (links e),
       confidence = Some FALLBACK_CONFIDENCE,
       raw = JObj [(''fallback'', JBool True), (''email_id'', JStr (messageId e))]\<rparr>]"

text \<open>\<open>{ ...item.raw, key: value }\<close> on the raw payload of a fallback item.\<close>

fun rawWith :: "json \<Rightarrow> string \<Rightarrow> json \<Rightarrow> json" where
  "rawWith (JObj kvs) k v =
     (if k \<in> fst ` set kvs then JObj (map (\<lambda>kv. if fst kv = k then (k, v) else kv) kvs)
      else JObj (kvs @ [(k, v)]))"
| "rawWith other k v = JObj [(k, v)]"

text \<open>\<open>typeof v === "number" ? Math.max(0, Math.min(1, v)) : other\<close>.\<close>

fun clampConfidence :: "json option \<Rightarrow> rat option \<Rightarrow> rat option" where
  "clampConfidence (Some (JNum c)) other = Some (max 0 (min 1 c))"
| "clampConfidence _ other = other"

text \<open>The object the \<open>map\<close> callback of \<open>extractOpportunitiesFromEmail\<close> builds.\<close>

definition cleanOpportunity :: "lib \<Rightarrow> config \<Rightarrow> emailContext \<Rightarrow> json \<Rightarrow> opportunity" where
  "cleanOpportunity L C e opp =
     \<lparr>job_title = normalizeString (strOf (getProp (Some opp) ''job_title'')) (subject e),
      company = normalizeString (strOf (getProp (Some opp) ''company''))
                  (normalizeString (Some (beforeAngle (from_hdr e))) (from_hdr e)),
      location = normalizeString (strOf (getProp (Some opp) ''location'')) ''Unknown'',
      description = truncate_str
                      (normalizeString (strOf (getProp (Some opp) ''description''))
                         (if textBody e \<noteq> [] then textBody e else subject e))
                      (MAX_DESCRIPTION_CHARS C),
      required_skills = normalizeStringArray L (arrOf (getProp (Some opp) ''required_skills'')) 50,
      posting_url = normalizeUrl L (strOf (getProp (Some opp) ''posting_url'')),
      apply_url = normalizeUrl L (strOf (getProp (Some opp) ''apply_url'')),
      confidence = clampConfidence (getProp (Some opp) ''confidence'') None,
      raw = opp\<rparr>"

text \<open>The predicate of the \<open>filter\<close> that follows.\<close>

definition usableOpportunity :: "opportunity \<Rightarrow> bool" where
  "usableOpportunity opp =
     (normalizeString (Some (job_title opp)) [] \<noteq> []
      \<or> normalizeString (Some (description opp)) [] \<noteq> []
      \<or> js_or (apply_url opp) None \<noteq> None
      \<or> js_or (posting_url opp) None \<noteq> None)"

text \<open>\<open>Array.isArray(parsed?.opportunities) ? parsed.opportunities : []\<close>.\<close>

definition parsedOpportunities :: "json \<Rightarrow> json list" where
  "parsedOpportunities p =
     (case arrOf (getProp (Some p) ''opportunities'') of Some vs \<Rightarrow> vs | None \<Rightarrow> [])"

text \<open>
  The \<open>received_at\<close> member of the prompt,
  \<open>receivedAt ? new Date(receivedAt).toISOString() : null\<close>. It is computed before the
  \<open>try\<close>; \<open>Inl\<close> is the RangeError thrown for a date that is not valid.
\<close>

definition promptReceivedAt :: "lib \<Rightarrow> emailContext \<Rightarrow> thrown + string option" where
  "promptReceivedAt L e =
     (case js_or (receivedAt e) None of
        None \<Rightarrow> Inr None
      | Some d \<Rightarrow>
          (case Date_toISOString L d of
             None \<Rightarrow> Inl (ErrorObj ''RangeError'' ''Invalid time value'' False)
           | Some stamp \<Rightarrow> Inr (Some stamp)))"

text \<open>
  \<open>extractOpportunitiesFromEmail(emailContext)\<close>; \<open>Inl\<close> is the value with which its
  promise rejects.
\<close>

definition extractOpportunitiesFromEmail ::
  "lib \<Rightarrow> config \<Rightarrow> 'w ext \<Rightarrow> emailContext \<Rightarrow> 'w \<Rightarrow> (thrown + opportunity list) \<times> 'w" where
  "extractOpportunitiesFromEmail L C X e w =
     (if \<not> ai C then (Inr (buildFallbackOpportunity C e), w)
      else (case promptReceivedAt L e of
              Inl rangeError \<Rightarrow> (Inl rangeError, w)
            | Inr received_at \<Rightarrow>
                (case generateStructuredJson L C X (ExtractionRequest e) w of
                   (Inr g, w') \<Rightarrow>
                     (let opportunities = parsedOpportunities (parsed g);
                          cleaned = filter usableOpportunity
                                      (map (cleanOpportunity L C e) opportunities)
                      in if length cleaned > 0 then (Inr cleaned, w')
                         else (Inr (map (\<lambda>item. item\<lparr>raw := rawWith (raw item)
                                                                  ''extraction_response''
                                                                  (JStr (responseText g))\<rparr>)
                                      (buildFallbackOpportunity C e)), w'))
                 | (Inl err, w') \<Rightarrow>
                     (Inr (map (\<lambda>item. item\<lparr>raw := rawWith (raw item) ''extraction_error''
                                                       (JStr (serializeError L err))\<rparr>)
                             (buildFallbackOpportunity C e)), w'))))"

section \<open>Opportunity enrichment\<close>

text \<open>\<open>{ ...opportunity, enrichment_status, enrichment_error, url_context_metadata }\<close>.\<close>

definition withEnrichment ::
  "opportunity \<Rightarrow> string \<Rightarrow> string option \<Rightarrow> json option \<Rightarrow> enriched" where
  "withEnrichment opp st err meta = opportunity.extend opp (enriched.fields st err meta)"

text \<open>The URL list \<open>enrichOpportunityWithUrls\<close> computes before it asks the model.\<close>

definition candidateUrls :: "lib \<Rightarrow> config \<Rightarrow> opportunity \<Rightarrow> link list \<Rightarrow> string list" where
  "candidateUrls L C opp emailLinks =
     map link_url
       (dedupeLinks L C
          ([\<lparr>link_url = (case js_or (apply_url opp) None of Some u \<Rightarrow> u | None \<Rightarrow> []),
             link_text = ''apply_url''\<rparr>,
            \<lparr>link_url = (case js_or (posting_url opp) None of Some u \<Rightarrow> u | None \<Rightarrow> []),
             link_text = ''posting_url''\<rparr>]
           @ map (\<lambda>l. \<lparr>link_url = link_url l, link_text = link_text l\<rparr>) emailLinks))"

text \<open>\<open>enrichOpportunityWithUrls(opportunity, emailLinks)\<close>.\<close>

definition enrichOpportunityWithUrls ::
  "lib \<Rightarrow> config \<Rightarrow> 'w ext \<Rightarrow> opportunity \<Rightarrow> link list \<Rightarrow> 'w \<Rightarrow> enriched \<times> 'w" where
  "enrichOpportunityWithUrls L C X opp emailLinks w =
     (if \<not> ai C then (withEnrichment opp ''skipped_no_gemini'' None None, w)
      else if length (candidateUrls L C opp emailLinks) = 0
      then (withEnrichment opp ''skipped_no_urls'' None None, w)
      else (case generateStructuredJson L C X
                   (EnrichmentRequest opp
                      (take (MAX_LINKS_PER_EMAIL C) (candidateUrls L C opp emailLinks))) w of
              (Inr g, w') \<Rightarrow>
                (let p = Some (parsed g) in
                 (withEnrichment
                    \<lparr>job_title = normalizeString (strOf (getProp p ''job_title'')) (job_title opp),
                     company = normalizeString (strOf (getProp p ''company'')) (company opp),
                     location = normalizeString (strOf (getProp p ''location'')) (location opp),
                     description = truncate_str
                                     (normalizeString (strOf (getProp p ''description''))
                                        (description opp))
                                     (MAX_DESCRIPTION_CHARS C),
                     required_skills =
                       normalizeStringArray L
                         (Some (map JStr
                                  (normalizeStringArray L (Some (map JStr (required_skills opp))) 60
                                   @ normalizeStringArray L (arrOf (getProp p ''required_skills'')) 60)))
                         60,
                     posting_url =
                       js_or (normalizeUrl L (strOf (getProp p ''posting_url'')))
                         (js_or (posting_url opp) None),
                     apply_url =
                       js_or (normalizeUrl L (strOf (getProp p ''apply_url'')))
                         (js_or (apply_url opp)
                            (js_or (normalizeUrl L (strOf (getProp p ''posting_url'')))
                               (js_or (posting_url opp) None))),
                     confidence = clampConfidence (getProp p ''confidence'') (confidence opp),
                     raw = raw opp\<rparr>
                    ''enriched'' None
                    (case resp_urlContextMetadata (response g) of
                       None \<Rightarrow> None
                     | Some m \<Rightarrow> if truthy m then Some m else None), w'))
            | (Inl err, w') \<Rightarrow>
                (withEnrichment opp ''error'' (Some (serializeError L err)) None, w')))"

section \<open>Message normalisation\<close>

text \<open>\<open>extractLinksFromHtml(html)\<close>.\<close>

definition extractLinksFromHtml :: "lib \<Rightarrow> string \<Rightarrow> link list" where
  "extractLinksFromHtml L html =
     (if html = [] then []
      else List.map_filter
             (\<lambda>m. case js_or (normalizeUrl L (Some (fst m))) None of
                     None \<Rightarrow> None
                   | Some u \<Rightarrow>
                       Some \<lparr>link_url = u,
                             link_text = normalizeString (Some (strip_tags L (snd m))) []\<rparr>)
             (regex_anchors L html))"

text \<open>\<open>extractLinksFromText(text)\<close>.\<close>

definition extractLinksFromText :: "lib \<Rightarrow> string \<Rightarrow> link list" where
  "extractLinksFromText L txt =
     (if txt = [] then []
      else List.map_filter
             (\<lambda>m. case js_or (normalizeUrl L (Some m)) None of
                     None \<Rightarrow> None
                   | Some u \<Rightarrow> Some \<lparr>link_url = u, link_text = []\<rparr>)
             (regex_urls L txt))"

text \<open>The decimal digits of a number, as a template string prints it.\<close>

fun show_nat :: "nat \<Rightarrow> string" where
  "show_nat n =
     (if n < 10 then [char_of (48 + n)]
      else show_nat (n div 10) @ [char_of (48 + n mod 10)])"

declare show_nat.simps [simp del]

text \<open>
  The part of \<open>parseMessage(sourceBuffer, message)\<close> after \<open>simpleParser\<close> has
  returned \<open>mail\<close>.
\<close>

definition normalizeMessage :: "lib \<Rightarrow> config \<Rightarrow> parsedMail \<Rightarrow> rawMessage \<Rightarrow> emailContext" where
  "normalizeMessage L C mail message =
     (let env = msg_envelope message;
          subject' = normalizeString (js_or (mail_subject mail) (env_subject env)) ''(No Subject)'';
          from' = (case js_or (Some (normalizeString (mail_from_text mail) []))
                          (js_or (Some (normalizeString (env_from_name env) []))
                             (Some (normalizeString (env_from_address env) ''(Unknown)''))) of
                     Some f \<Rightarrow> f | None \<Rightarrow> []);
          receivedAt' = js_or (mail_date mail) (js_or (env_date env) None);
          messageId' = (case js_or (Some (normalizeString (mail_messageId mail) []))
                               (js_or (Some (normalizeString (env_messageId env) []))
                                  (Some (''imap-'' @ show_nat (uid message)))) of
                          Some m \<Rightarrow> m | None \<Rightarrow> []);
          textBody' = normalizeString (Some (case js_or (mail_text mail) (Some []) of
                                               Some t \<Rightarrow> t | None \<Rightarrow> [])) [];
          htmlBody' = (case mail_html mail of Some h \<Rightarrow> h | None \<Rightarrow> [])
      in \<lparr>messageId = messageId',
          subject = subject',
          from_hdr = from',
          receivedAt = receivedAt',
          textBody = textBody',
          htmlBody = htmlBody',
          links = dedupeLinks L C (extractLinksFromHtml L htmlBody' @ extractLinksFromText L textBody')\<rparr>)"

text \<open>\<open>parseMessage(sourceBuffer, message)\<close>; \<open>Inl\<close> when the parser throws.\<close>

definition parseMessage ::
  "lib \<Rightarrow> config \<Rightarrow> 'w ext \<Rightarrow> rawMessage \<Rightarrow> 'w \<Rightarrow> (thrown + emailContext) \<times> 'w" where
  "parseMessage L C X message w =
     (case simpleParser X w (sourceBuffer message) of
        (Inl err, w') \<Rightarrow> (Inl err, w')
      | (Inr mail, w') \<Rightarrow> (Inr (normalizeMessage L C mail message), w'))"

section \<open>The poll handler\<close>

definition dquote :: string where
  "dquote = [CHR 0x22]"

text \<open>\<open>errors.push(msg)\<close>.\<close>

definition pushError :: "string \<Rightarrow> ('w, 'z) run_scheme \<Rightarrow> ('w, 'z) run_scheme" where
  "pushError msg st = st\<lparr>errors := errors st @ [msg]\<rparr>"

text \<open>\<open>primaryUrl\<close> in the opportunity loop of \<open>handlePoll\<close>.\<close>

definition primaryUrl :: "enriched \<Rightarrow> emailContext \<Rightarrow> string option" where
  "primaryUrl en e =
     js_or (apply_url en) (js_or (posting_url en) (js_or (firstLinkUrl (links e)) None))"

text \<open>\<open>v || null\<close> on a parsed value.\<close>

definition json_or_null :: "json option \<Rightarrow> json option" where
  "json_or_null v = (case v of None \<Rightarrow> None | Some x \<Rightarrow> if truthy x then Some x else None)"

text \<open>The \<open>jobData\<close> literal in the opportunity loop of \<open>handlePoll\<close>.\<close>

definition buildJobData ::
  "lib \<Rightarrow> config \<Rightarrow> integration \<Rightarrow> rawMessage \<Rightarrow> emailContext \<Rightarrow> opportunity \<Rightarrow> enriched \<Rightarrow> jobData" where
  "buildJobData L C integ message e extracted en =
     \<lparr>d_email_id = messageId e,
      d_user_id = user_id integ,
      d_job_fingerprint = buildJobFingerprint L (messageId e) en,
      d_job_title = normalizeString (Some (job_title en)) (subject e),
      d_company = normalizeString (Some (company en))
                    (normalizeString (Some (beforeAngle (from_hdr e))) (from_hdr e)),
      d_location = normalizeString (Some (location en)) ''Unknown'',
      d_description = truncate_str
                        (normalizeString (Some (description en))
                           (if textBody e \<noteq> [] then textBody e else subject e))
                        (MAX_DESCRIPTION_CHARS C),
      d_job_link = (case primaryUrl en e of
                      Some u \<Rightarrow> u
                    | None \<Rightarrow> ''imap://'' @ imap_host integ @ ''/INBOX/'' @ show_nat (uid message)),
      d_posting_url = js_or (posting_url en) (primaryUrl en e),
      d_apply_url = js_or (apply_url en) (primaryUrl en e),
      d_source_subject = subject e,
      d_source_from = from_hdr e,
      d_source_received_at = receivedAt e,
      d_source_message_uid = uid message,
      d_source_links = links e,
      d_status = ''prepared'',
      d_extracted_skills = normalizeStringArray L (Some (map JStr (required_skills en))) 60,
      d_extraction_model = GEMINI_MODEL C,
      d_extraction_confidence = confidence en,
      d_raw_extraction = json_or_null (Some (raw extracted)),
      d_raw_enrichment_status = js_or (Some (enrichment_status en)) None,
      d_raw_enrichment_error = js_or (enrichment_error en) None,
      d_raw_url_context_metadata = json_or_null (url_context_metadata en),
      d_parse_status = (if enrichment_status en = ''error'' then ''partial'' else ''parsed''),
      d_parse_error = js_or (enrichment_error en) None\<rparr>"

text \<open>
  The \<open>try\<close> block after a successful insert: the resume is produced and its row is
  inserted; any throw increments \<open>resumesFailed\<close> and records the error.
\<close>

definition resumeStep ::
  "lib \<Rightarrow> 'w ext \<Rightarrow> integration \<Rightarrow> json \<Rightarrow> enriched \<Rightarrow> json \<Rightarrow> jobData \<Rightarrow> 'w run \<Rightarrow> 'w run" where
  "resumeStep L X integ baseProfile en insertedJob jd st =
     (let failed = (\<lambda>err s. pushError (''Resume generation failed for '' @ dquote @ d_job_title jd
                                        @ dquote @ '': '' @ serializeError L err)
                               (s\<lparr>resumesFailed := resumesFailed s + 1\<rparr>))
      in case produceResumePdf X (world st) baseProfile en insertedJob of
           (Inl err, w1) \<Rightarrow> failed err (st\<lparr>world := w1\<rparr>)
         | (Inr (resume_json, resumePdfUrl), w1) \<Rightarrow>
             (let row = \<lparr>r_job_id = getProp (Some insertedJob) ''id'',
                         r_user_id = user_id integ,
                         r_resume_json = resume_json,
                         r_resume_pdf_url = resumePdfUrl\<rparr>;
                  st1 = st\<lparr>world := w1, calls := calls st @ [InsertResume row]\<rparr>
              in case insertResume X (world st1) row of
                   (Some resumeInsertError, w2) \<Rightarrow> failed resumeInsertError (st1\<lparr>world := w2\<rparr>)
                 | (None, w2) \<Rightarrow> st1\<lparr>world := w2, resumesGenerated := resumesGenerated st1 + 1\<rparr>))"

text \<open>
  One pass of \<open>for (const extracted of opportunities)\<close>. The second component is
  \<open>messagePersisted\<close>.
\<close>

definition processOpportunity ::
  "lib \<Rightarrow> config \<Rightarrow> 'w ext \<Rightarrow> integration \<Rightarrow> json \<Rightarrow> rawMessage \<Rightarrow> emailContext \<Rightarrow>
   'w run \<times> bool \<Rightarrow> opportunity \<Rightarrow> 'w run \<times> bool" where
  "processOpportunity L C X integ baseProfile message e sp extracted =
     (let st = fst sp; messagePersisted = snd sp in
      case enrichOpportunityWithUrls L C X extracted (links e) (world st) of
        (en, w1) \<Rightarrow>
          (let fingerprint = buildJobFingerprint L (messageId e) en in
           case selectJob X w1 (user_id integ) (messageId e) fingerprint of
             (Inl existingError, w2) \<Rightarrow>
               (pushError (''Existing-job check failed for '' @ dquote @ job_title en @ dquote
                           @ '': '' @ serializeError L existingError)
                  (st\<lparr>world := w2\<rparr>), messagePersisted)
           | (Inr (Some existingJob), w2) \<Rightarrow>
               (st\<lparr>world := w2, duplicateJobs := duplicateJobs st + 1\<rparr>, True)
           | (Inr None, w2) \<Rightarrow>
               (let jd = buildJobData L C integ message e extracted en;
                    st2 = st\<lparr>world := w2, calls := calls st @ [InsertJob jd]\<rparr>
                in case insertJob X (world st2) jd of
                     (Inl insertError, w3) \<Rightarrow>
                       (pushError (''Job insert failed for '' @ dquote @ d_job_title jd @ dquote
                                   @ '': '' @ serializeError L insertError)
                          (st2\<lparr>world := w3\<rparr>), messagePersisted)
                   | (Inr insertedJob, w3) \<Rightarrow>
                       (resumeStep L X integ baseProfile en insertedJob jd
                          (st2\<lparr>world := w3, jobsInserted := jobsInserted st2 + 1\<rparr>), True))))"

fun opportunitiesLoop ::
  "lib \<Rightarrow> config \<Rightarrow> 'w ext \<Rightarrow> integration \<Rightarrow> json \<Rightarrow> rawMessage \<Rightarrow> emailContext \<Rightarrow>
   opportunity list \<Rightarrow> 'w run \<times> bool \<Rightarrow> 'w run \<times> bool" where
  "opportunitiesLoop L C X integ baseProfile message e [] sp = sp"
| "opportunitiesLoop L C X integ baseProfile message e (extracted # rest) sp =
     opportunitiesLoop L C X integ baseProfile message e rest
       (processOpportunity L C X integ baseProfile message e sp extracted)"

text \<open>
  How the head of one pass of \<open>for (const raw of rawMessages)\<close> ends: with a value
  thrown out of the loop, with \<open>continue\<close>, or at the opportunity loop with the
  parsed email and the opportunities extracted from it.
\<close>

datatype 'w prelude =
    Thrown thrown "'w run"
  | Continue "'w run"
  | Extracted emailContext "opportunity list" "'w run"

text \<open>
  The head of one pass, up to the opportunity loop: the message is parsed (a parse
  error is recorded and the pass ends), skipped when a job of the same \<open>email_id\<close>
  exists or when no keyword matches, and otherwise handed to the extractor, whose
  throw nothing in the loop catches.
\<close>

definition messagePrelude ::
  "lib \<Rightarrow> config \<Rightarrow> 'w ext \<Rightarrow> integration \<Rightarrow> string list \<Rightarrow> bool \<Rightarrow> rawMessage \<Rightarrow> 'w run \<Rightarrow>
   'w prelude" where
  "messagePrelude L C X integ keywords matchInBody message st =
     (case parseMessage L C X message (world st) of
        (Inl err, w1) \<Rightarrow>
          Continue (pushError (''Failed to parse message UID '' @ show_nat (uid message) @ '': ''
                               @ serializeError L err) (st\<lparr>world := w1\<rparr>))
      | (Inr e, w1) \<Rightarrow>
          (case countJobsForEmail X w1 (user_id integ) (messageId e) of
             (cnt, w2) \<Rightarrow>
               if (case cnt of Inl existingEmailError \<Rightarrow> False
                             | Inr None \<Rightarrow> False
                             | Inr (Some existingEmailCount) \<Rightarrow> existingEmailCount > 0)
               then Continue (st\<lparr>world := w2\<rparr>)
               else if \<not> keywordMatch e keywords matchInBody then Continue (st\<lparr>world := w2\<rparr>)
               else (case extractOpportunitiesFromEmail L C X e w2 of
                       (Inl err, w3) \<Rightarrow>
                         Thrown err
                           (st\<lparr>world := w3,
                               emailsKeywordMatched := emailsKeywordMatched st + 1\<rparr>)
                     | (Inr opportunities, w3) \<Rightarrow>
                         Extracted e opportunities
                           (st\<lparr>world := w3,
                               emailsKeywordMatched := emailsKeywordMatched st + 1,
                               opportunitiesExtracted :=
                                 opportunitiesExtracted st + length opportunities\<rparr>))))"

text \<open>
  One pass of the message loop. The first component is the value thrown out of the
  pass, if any; the last is \<open>uidsToMark\<close>.
\<close>

definition processMessage ::
  "lib \<Rightarrow> config \<Rightarrow> 'w ext \<Rightarrow> integration \<Rightarrow> json \<Rightarrow> string list \<Rightarrow> bool \<Rightarrow>
   'w run \<times> nat list \<Rightarrow> rawMessage \<Rightarrow> thrown option \<times> 'w run \<times> nat list" where
  "processMessage L C X integ baseProfile keywords matchInBody su message =
     (case messagePrelude L C X integ keywords matchInBody message (fst su) of
        Thrown err st' \<Rightarrow> (Some err, st', snd su)
      | Continue st' \<Rightarrow> (None, st', snd su)
      | Extracted e opportunities st' \<Rightarrow>
          (case opportunitiesLoop L C X integ baseProfile message e opportunities (st', False) of
             (st'', messagePersisted) \<Rightarrow>
               (None, st'', if messagePersisted then snd su @ [uid message] else snd su)))"

text \<open>The message loop; a throw ends it.\<close>

fun messagesLoop ::
  "lib \<Rightarrow> config \<Rightarrow> 'w ext \<Rightarrow> integration \<Rightarrow> json \<Rightarrow> string list \<Rightarrow> bool \<Rightarrow>
   rawMessage list \<Rightarrow> 'w run \<times> nat list \<Rightarrow> thrown option \<times> 'w run \<times> nat list" where
  "messagesLoop L C X integ baseProfile keywords matchInBody [] su = (None, su)"
| "messagesLoop L C X integ baseProfile keywords matchInBody (message # rest) su =
     (case processMessage L C X integ baseProfile keywords matchInBody su message of
        (Some err, su') \<Rightarrow> (Some err, su')
      | (None, su') \<Rightarrow> messagesLoop L C X integ baseProfile keywords matchInBody rest su')"

text \<open>Phase 3: the uids collected are passed to \<open>imapMarkAsRead\<close>, when there are any.\<close>

definition markPhase ::
  "lib \<Rightarrow> 'w ext \<Rightarrow> integration \<Rightarrow> string \<Rightarrow> 'w run \<times> nat list \<Rightarrow> 'w run" where
  "markPhase L X integ password su =
     (let st = fst su; uidsToMark = snd su in
      if length uidsToMark > 0
      then (case imapMarkAsRead X (world st) integ password uidsToMark of
              (Some markErr, w') \<Rightarrow>
                pushError (''Failed to mark messages as read: '' @ serializeError L markErr)
                  (st\<lparr>world := w', calls := calls st @ [MarkAsRead uidsToMark]\<rparr>)
            | (None, w') \<Rightarrow> st\<lparr>world := w', calls := calls st @ [MarkAsRead uidsToMark]\<rparr>)
      else st)"

text \<open>\<open>fetchBaseProfile(supabase, userId)\<close>.\<close>

definition defaultProfile :: json where
  "defaultProfile =
     JObj [(''personal_info'',
            JObj [(''name'', JStr ''Candidate''), (''email'', JStr ''candidate@example.com''),
                  (''phone'', JStr [])]),
           (''skills'', JArr []), (''experience'', JArr []), (''education'', JArr [])]"

definition fetchBaseProfile :: "'w ext \<Rightarrow> string \<Rightarrow> 'w \<Rightarrow> (thrown + json) \<times> 'w" where
  "fetchBaseProfile X userId w =
     (case selectBaseProfile X w userId of
        (Inl err, w') \<Rightarrow> (Inl err, w')
      | (Inr data, w') \<Rightarrow>
          (Inr (case getProp data ''profile_json'' of
                  Some (JObj kvs) \<Rightarrow> JObj kvs
                | Some (JArr vs) \<Rightarrow> JArr vs
                | _ \<Rightarrow> defaultProfile), w'))"

text \<open>\<open>effectiveMaxEmails\<close>; 0 is unlimited.\<close>

definition effectiveMaxEmails :: "bool \<Rightarrow> int option \<Rightarrow> int" where
  "effectiveMaxEmails syncAll mx =
     (if syncAll then 0
      else (case mx of Some n \<Rightarrow> if n > 0 then n else 10 | None \<Rightarrow> 10))"

text \<open>
  The three awaited calls at the head of the inner \<open>try\<close>: the password is decrypted,
  the base profile is read and the messages are fetched. \<open>Inl\<close> is the value thrown.
\<close>

definition integrationPrelude ::
  "'w ext \<Rightarrow> bool \<Rightarrow> integration \<Rightarrow> 'w run \<Rightarrow> (thrown \<times> 'w run) + (string \<times> json \<times> rawMessage list \<times> 'w run)" where
  "integrationPrelude X syncAll integ st =
     (case decrypt X (world st) (imap_password_encrypted integ) (encryption_iv integ) of
        (Inl err, w1) \<Rightarrow> Inl (err, st\<lparr>world := w1\<rparr>)
      | (Inr password, w1) \<Rightarrow>
          (case fetchBaseProfile X (user_id integ) w1 of
             (Inl err, w2) \<Rightarrow> Inl (err, st\<lparr>world := w2\<rparr>)
           | (Inr baseProfile, w2) \<Rightarrow>
               (case imapFetchUnread X w2 integ password
                       (effectiveMaxEmails syncAll (max_emails_per_sync integ)) of
                  (Inl err, w3) \<Rightarrow> Inl (err, st\<lparr>world := w3\<rparr>)
                | (Inr rawMessages, w3) \<Rightarrow>
                    Inr (password, baseProfile, rawMessages,
                         st\<lparr>world := w3,
                            emailsScanned := emailsScanned st + length rawMessages\<rparr>))))"

text \<open>The \<open>catch\<close> of the pass over one integration.\<close>

definition integrationCatch :: "lib \<Rightarrow> thrown \<Rightarrow> 'w run \<Rightarrow> 'w run" where
  "integrationCatch L err st =
     (if authenticationFailed err
      then pushError ''IMAP authentication failed. If using Gmail, make sure you are using a Google App Password.'' st
      else pushError (messageOrString L err) st)"

text \<open>
  One pass of \<open>for (const integration of integrations)\<close>. A throw at its head or out
  of the message loop goes to the \<open>catch\<close>, and Phase 3 is not reached.
\<close>

definition processIntegration ::
  "lib \<Rightarrow> config \<Rightarrow> 'w ext \<Rightarrow> bool \<Rightarrow> 'w run \<Rightarrow> integration \<Rightarrow> 'w run" where
  "processIntegration L C X syncAll st integ =
     (let keywords = effectiveKeywords (job_keywords integ);
          matchInBody = matchInBody_of (keyword_match_scope integ)
      in case integrationPrelude X syncAll integ st of
           Inr (password, baseProfile, rawMessages, st1) \<Rightarrow>
             (case messagesLoop L C X integ baseProfile keywords matchInBody rawMessages
                     (st1, []) of
                (Some err, su) \<Rightarrow> integrationCatch L err (fst su)
              | (None, su) \<Rightarrow> markPhase L X integ password su)
         | Inl (err, st1) \<Rightarrow> integrationCatch L err st1)"

fun integrationsLoop ::
  "lib \<Rightarrow> config \<Rightarrow> 'w ext \<Rightarrow> bool \<Rightarrow> integration list \<Rightarrow> 'w run \<Rightarrow> 'w run" where
  "integrationsLoop L C X syncAll [] st = st"
| "integrationsLoop L C X syncAll (integ # rest) st =
     integrationsLoop L C X syncAll rest (processIntegration L C X syncAll st integ)"

text \<open>
  \<open>handlePoll({ syncAll })\<close>. The first component is the value with which the promise
  rejects, \<open>None\<close> when it resolves. \<open>createClient\<close> is called before the \<open>try\<close>; the
  body of the \<open>try\<close> throws only the \<open>error\<close> of the integrations query, which the
  \<open>catch\<close> records; the \<open>finally\<close> clears \<open>running\<close>.
\<close>

definition handlePoll ::
  "lib \<Rightarrow> config \<Rightarrow> 'w ext \<Rightarrow> bool \<Rightarrow> 'w run \<Rightarrow> thrown option \<times> 'w run" where
  "handlePoll L C X syncAll st =
     (case createClient X of
        Some err \<Rightarrow> (Some err, st)
      | None \<Rightarrow>
          (let st' =
                 (case selectIntegrations X (world st) of
                    (Inl intError, w1) \<Rightarrow> pushError (messageOrString L intError) (st\<lparr>world := w1\<rparr>)
                  | (Inr None, w1) \<Rightarrow> st\<lparr>world := w1\<rparr>
                  | (Inr (Some integrations), w1) \<Rightarrow>
                      if length integrations = 0 then st\<lparr>world := w1\<rparr>
                      else integrationsLoop L C X syncAll integrations
                             (st\<lparr>world := w1, integrationsFound := length integrations\<rparr>))
           in (None, st'\<lparr>running := False\<rparr>)))"

section \<open>The HTTP server\<close>

text \<open>\<open>resetStats()\<close>.\<close>

definition resetStats :: "'w run \<Rightarrow> 'w run" where
  "resetStats st =
     st\<lparr>running := True, integrationsFound := 0, emailsScanned := 0, emailsKeywordMatched := 0,
        opportunitiesExtracted := 0, jobsInserted := 0, duplicateJobs := 0,
        resumesGenerated := 0, resumesFailed := 0, errors := []\<rparr>"

text \<open>The object \<open>JSON.stringify(pollStats)\<close> serialises.\<close>

definition statsJson :: "('w, 'z) run_scheme \<Rightarrow> json" where
  "statsJson st =
     JObj [(''running'', JBool (running st)),
           (''integrationsFound'', JNum (of_nat (integrationsFound st))),
           (''emailsScanned'', JNum (of_nat (emailsScanned st))),
           (''emailsKeywordMatched'', JNum (of_nat (emailsKeywordMatched st))),
           (''opportunitiesExtracted'', JNum (of_nat (opportunitiesExtracted st))),
           (''jobsInserted'', JNum (of_nat (jobsInserted st))),
           (''duplicateJobs'', JNum (of_nat (duplicateJobs st))),
           (''resumesGenerated'', JNum (of_nat (resumesGenerated st))),
           (''resumesFailed'', JNum (of_nat (resumesFailed st))),
           (''errors'', JArr (map JStr (errors st)))]"

record request =
  req_method :: string
  req_pathname :: string
  req_body :: string

record http_response =
  res_status :: nat
  res_body :: "json option"

text \<open>
  A background run started and not yet settled: its \<open>syncAll\<close> option and the object
  it writes its counters and errors to. \<open>handlePoll\<close> takes that object from the
  variable \<open>pollStats\<close> when it is called; \<open>None\<close> says \<open>pollStats\<close> still names it,
  otherwise a later \<open>resetStats()\<close> has put a fresh object in its place and the run
  goes on writing to the old one, kept here.
\<close>

record 'w flight =
  flight_syncAll :: bool
  flight_stats :: "'w run option"

text \<open>
  The process: the object \<open>pollStats\<close> names together with the outside, the listeners
  that wait for the body of their \<open>POST /poll\<close>, and the runs in flight.
\<close>

record 'w server =
  state :: "'w run"
  reading :: "request list"
  pending :: "'w flight list"

text \<open>\<open>reqBody?.syncAll === true\<close>, where a body that does not parse counts as \<open>{}\<close>.\<close>

definition syncAllOf :: "lib \<Rightarrow> string \<Rightarrow> bool" where
  "syncAllOf L body =
     (if trim body = [] then False
      else (case JSON_parse L body of
              Inl msg \<Rightarrow> False
            | Inr v \<Rightarrow> getProp (Some v) ''syncAll'' = Some (JBool True)))"

text \<open>
  The request listener of \<open>http.createServer\<close>, up to its first \<open>await\<close>. Every
  request but an accepted \<open>POST /poll\<close> is answered at once. A \<open>POST /poll\<close> that finds
  \<open>running\<close> set is answered 409; one that finds it clear goes on to read the request
  body, and the listener is suspended (no answer yet).
\<close>

definition handleRequest ::
  "lib \<Rightarrow> request \<Rightarrow> 'w server \<Rightarrow> http_response option \<times> 'w server" where
  "handleRequest L req s =
     (if req_method req = ''OPTIONS'' then (Some \<lparr>res_status = 204, res_body = None\<rparr>, s)
      else if req_pathname req = ''/health''
      then (Some \<lparr>res_status = 200,
                  res_body = Some (JObj [(''ok'', JBool True),
                                         (''pollRunning'', JBool (running (state s)))])\<rparr>, s)
      else if req_pathname req = ''/status''
      then (Some \<lparr>res_status = 200, res_body = Some (statsJson (state s))\<rparr>, s)
      else if req_pathname req = ''/poll'' \<and> req_method req = ''POST''
      then (if running (state s)
            then (Some \<lparr>res_status = 409,
                        res_body = Some (JObj [(''error'', JStr ''A sync is already in progress. Please wait for it to finish.''),
                                               (''stats'', statsJson (state s))])\<rparr>, s)
            else (None, s\<lparr>reading := reading s @ [req]\<rparr>))
      else (Some \<lparr>res_status = 404, res_body = Some (JObj [(''error'', JStr ''Not found'')])\<rparr>,
            s))"

text \<open>
  A run in flight after \<open>resetStats()\<close> has replaced the object: it keeps the object it
  had.
\<close>

definition displaced :: "'w run \<Rightarrow> 'w flight \<Rightarrow> 'w flight" where
  "displaced old f =
     (case flight_stats f of None \<Rightarrow> f\<lparr>flight_stats := Some old\<rparr> | Some obj \<Rightarrow> f)"

text \<open>
  The rest of the listener for \<open>POST /poll\<close>, once the body has been read: the options
  are parsed, \<open>resetStats()\<close> replaces the object, \<open>handlePoll\<close> is started and the
  answer is 202 with the new object. \<open>running\<close> is not tested again.
\<close>

definition handleRequestBody :: "lib \<Rightarrow> request \<Rightarrow> 'w server \<Rightarrow> http_response \<times> 'w server" where
  "handleRequestBody L req s =
     (let syncAll = syncAllOf L (req_body req);
          s' = s\<lparr>state := resetStats (state s),
                  pending := map (displaced (state s)) (pending s)
                             @ [\<lparr>flight_syncAll = syncAll, flight_stats = None\<rparr>]\<rparr>
      in (\<lparr>res_status = 202,
           res_body = Some (JObj [(''message'', JStr ''Polling started in background''),
                                  (''stats'', statsJson (state s'))])\<rparr>, s'))"

text \<open>
  The background run to its end: \<open>handlePoll\<close>, and the \<open>catch\<close> the server attaches
  to its promise.
\<close>

definition backgroundPoll :: "lib \<Rightarrow> config \<Rightarrow> 'w ext \<Rightarrow> bool \<Rightarrow> 'w run \<Rightarrow> 'w run" where
  "backgroundPoll L C X syncAll st =
     (case handlePoll L C X syncAll st of
        (None, st') \<Rightarrow> st'
      | (Some err, st') \<Rightarrow> pushError (errorToString L err) (st'\<lparr>running := False\<rparr>))"

text \<open>
  A run in flight comes to its end. When \<open>pollStats\<close> still names its object this is
  \<open>backgroundPoll\<close> on the state. Otherwise the run has written its counters and
  errors to the object it kept, which nothing reads any more; what reaches the state
  is what it did outside, \<open>pollStats.running = false\<close> from its \<open>finally\<close> or from the
  server's \<open>catch\<close>, and the error that \<open>catch\<close> pushes.
\<close>

definition settle :: "lib \<Rightarrow> config \<Rightarrow> 'w ext \<Rightarrow> 'w flight \<Rightarrow> 'w run \<Rightarrow> 'w run" where
  "settle L C X f st =
     (case flight_stats f of
        None \<Rightarrow> backgroundPoll L C X (flight_syncAll f) st
      | Some obj \<Rightarrow>
          (case handlePoll L C X (flight_syncAll f) (obj\<lparr>world := world st, calls := calls st\<rparr>) of
             (None, r) \<Rightarrow> st\<lparr>world := world r, calls := calls r, running := False\<rparr>
           | (Some err, r) \<Rightarrow>
               pushError (errorToString L err)
                 (st\<lparr>world := world r, calls := calls r, running := False\<rparr>)))"

text \<open>
  What happens to the process: a request arrives, the body of a waiting \<open>POST /poll\<close>
  has been read, or a run in flight settles; the number picks the listener or the
  run. A run is taken in one piece at the moment it settles.
\<close>

datatype event =
    Request request
  | BodyRead nat
  | Settle nat

text \<open>The list without its element at a position.\<close>

definition without :: "nat \<Rightarrow> 'a list \<Rightarrow> 'a list" where
  "without i xs = take i xs @ drop (Suc i) xs"

definition step :: "lib \<Rightarrow> config \<Rightarrow> 'w ext \<Rightarrow> 'w server \<Rightarrow> event \<Rightarrow> 'w server" where
  "step L C X s ev =
     (case ev of
        Request req \<Rightarrow> snd (handleRequest L req s)
      | BodyRead i \<Rightarrow>
          if i < length (reading s)
          then snd (handleRequestBody L (reading s ! i) (s\<lparr>reading := without i (reading s)\<rparr>))
          else s
      | Settle i \<Rightarrow>
          if i < length (pending s)
          then s\<lparr>state := settle L C X (pending s ! i) (state s),
                 pending := without i (pending s)\<rparr>
          else s)"

text \<open>The answer an event produces, if any.\<close>

definition answer :: "lib \<Rightarrow> 'w server \<Rightarrow> event \<Rightarrow> http_response option" where
  "answer L s ev =
     (case ev of
        Request req \<Rightarrow> fst (handleRequest L req s)
      | BodyRead i \<Rightarrow>
          if i < length (reading s)
          then Some (fst (handleRequestBody L (reading s ! i) (s\<lparr>reading := without i (reading s)\<rparr>)))
          else None
      | Settle i \<Rightarrow> None)"

fun run_events :: "lib \<Rightarrow> config \<Rightarrow> 'w ext \<Rightarrow> event list \<Rightarrow> 'w server \<Rightarrow> 'w server" where
  "run_events L C X [] s = s"
| "run_events L C X (ev # evs) s = run_events L C X evs (step L C X s ev)"

text \<open>The status codes answered along a sequence of events.\<close>

fun answers :: "lib \<Rightarrow> config \<Rightarrow> 'w ext \<Rightarrow> event list \<Rightarrow> 'w server \<Rightarrow> nat option list" where
  "answers L C X [] s = []"
| "answers L C X (ev # evs) s =
     map_option res_status (answer L s ev) # answers L C X evs (step L C X s ev)"

text \<open>The process at start-up: the initial \<open>pollStats\<close>, no listener waiting, no run started.\<close>

definition initialServer :: "'w \<Rightarrow> 'w server" where
  "initialServer w =
     \<lparr>state = \<lparr>running = False, integrationsFound = 0, emailsScanned = 0,
                emailsKeywordMatched = 0, opportunitiesExtracted = 0, jobsInserted = 0,
                duplicateJobs = 0, resumesGenerated = 0, resumesFailed = 0, errors = [],
                world = w, calls = []\<rparr>,
      reading = [],
      pending = []\<rparr>"

text \<open>While \<open>running\<close> is set, a run is in flight.\<close>

definition running_in_flight :: "'w server \<Rightarrow> bool" where
  "running_in_flight s = (running (state s) \<longrightarrow> pending s \<noteq> [])"

text \<open>
  The test on the result of the \<open>email_id\<close> count in the message loop: the message
  is skipped when the count came back and is positive.
\<close>

definition skipExisting :: "thrown + nat option \<Rightarrow> bool" where
  "skipExisting cnt =
     (case cnt of Inl existingEmailError \<Rightarrow> False
                | Inr None \<Rightarrow> False
                | Inr (Some existingEmailCount) \<Rightarrow> existingEmailCount > 0)"

text \<open>
  A well-formed absolute URL of scheme http or https, as the platform sees it: the
  serialisation of a URL the parser accepted with protocol \<open>http:\<close> or \<open>https:\<close>.
\<close>

definition isHttpUrl :: "lib \<Rightarrow> string \<Rightarrow> bool" where
  "isHttpUrl L u = (\<exists>s p. URL_parse L s = Some p \<and> protocol p \<in> {''http:'', ''https:''} \<and> href p = u)"

definition httpUrlOrNull :: "lib \<Rightarrow> string option \<Rightarrow> bool" where
  "httpUrlOrNull L v = (case v of None \<Rightarrow> True | Some u \<Rightarrow> isHttpUrl L u)"

text \<open>
  Between two states of a run, every job insert asked for in the meantime carries such
  URLs, or null, as \<open>posting_url\<close> and \<open>apply_url\<close>.
\<close>

definition addsHttpOnly :: "lib \<Rightarrow> 'w run \<Rightarrow> 'w run \<Rightarrow> bool" where
  "addsHttpOnly L st0 st =
     (\<forall>jd. InsertJob jd \<in> set (calls st) \<longrightarrow>
        InsertJob jd \<in> set (calls st0)
        \<or> (httpUrlOrNull L (d_posting_url jd) \<and> httpUrlOrNull L (d_apply_url jd)))"

section \<open>Example inputs\<close>

text \<open>
  Concrete inputs on which the theorems below are instantiated: a small URL parser
  that accepts \<open>https://\<close> and \<open>mailto:\<close> prefixes, the identity in place of the
  digest, a date conversion that knows one date, and the default configuration with
  the model enabled.
\<close>

definition exampleLib :: lib where
  "exampleLib =
     \<lparr>URL_parse = (\<lambda>s. if startsWith s ''https://'' then Some \<lparr>protocol = ''https:'', href = s\<rparr>
                        else if startsWith s ''mailto:'' then Some \<lparr>protocol = ''mailto:'', href = s\<rparr>
                        else None),
      sha256_hex = (\<lambda>s. s),
      JSON_parse = (\<lambda>s. if startsWith s ''{'' then Inr (JObj [(''syncAll'', JBool True)])
                         else Inl ''Unexpected token''),
      String_nonstr = (\<lambda>v. ''null''),
      JSON_stringify = (\<lambda>v. ''null''),
      regex_anchors = (\<lambda>s. []),
      regex_urls = (\<lambda>s. if s = ''Apply at https://acme.example/jobs/1'' then [''https://acme.example/jobs/1''] else []),
      strip_tags = (\<lambda>s. s),
      Date_toISOString = (\<lambda>d. if d = ''Mon, 05 Jan 2026 10:00:00 +0000''
                               then Some ''2026-01-05T10:00:00.000Z'' else None)\<rparr>"

definition exampleConfig :: config where
  "exampleConfig =
     \<lparr>ai = True, GEMINI_MODEL = ''gemini-2.5-flash'', MAX_LINKS_PER_EMAIL = 20,
      MAX_EMAIL_TEXT_CHARS = 24000, MAX_DESCRIPTION_CHARS = 8000, POLL_TIMEOUT_MS = 180000\<rparr>"

definition exampleIntegration :: integration where
  "exampleIntegration =
     \<lparr>user_id = ''u1'', imap_host = ''imap.mail.example'', imap_port = Some 993,
      imap_user = ''me@mail.example'', imap_password_encrypted = ''c2VjcmV0'',
      encryption_iv = ''aXY='', job_keywords = Some [''Engineer''],
      keyword_match_scope = ''subject'', max_emails_per_sync = Some 10\<rparr>"

definition exampleMessage :: rawMessage where
  "exampleMessage =
     \<lparr>uid = 7,
      msg_envelope = \<lparr>env_subject = Some ''Backend Engineer at ACME'', env_from_name = Some ''ACME Jobs'',
                       env_from_address = Some ''jobs@acme.example'', env_date = None,
                       env_messageId = Some ''<m1@mail.example>''\<rparr>,
      sourceBuffer = ''Subject: Backend Engineer at ACME''\<rparr>"

definition exampleMail :: parsedMail where
  "exampleMail =
     \<lparr>mail_subject = Some ''Backend Engineer at ACME'', mail_from_text = Some ''ACME Jobs <jobs@acme.example>'',
      mail_date = None, mail_messageId = Some ''<m1@mail.example>'',
      mail_text = Some ''Apply at https://acme.example/jobs/1'', mail_html = None\<rparr>"

text \<open>
  A scenario: one integration, one message that matches a keyword, the count of the
  jobs stored for the message fails, the model cannot be reached, and the job is
  already stored.
\<close>

definition exampleExt :: "unit ext" where
  "exampleExt =
     \<lparr>createClient = None,
      selectIntegrations = (\<lambda>w. (Inr (Some [exampleIntegration]), w)),
      decrypt = (\<lambda>w c iv. (Inr ''secret'', w)),
      selectBaseProfile = (\<lambda>w u. (Inr None, w)),
      imapFetchUnread = (\<lambda>w i p n. (Inr [exampleMessage], w)),
      simpleParser = (\<lambda>w b. (Inr exampleMail, w)),
      countJobsForEmail = (\<lambda>w u m. (Inl (ErrorObj ''Error'' ''statement timeout'' False), w)),
      generateContent = (\<lambda>w r. (Inl (ErrorObj ''Error'' ''fetch failed'' False), w)),
      selectJob = (\<lambda>w u m f. (Inr (Some (JObj [(''id'', JStr ''j1'')])), w)),
      insertJob = (\<lambda>w d. (Inl (ErrorObj ''Error'' ''duplicate key'' False), w)),
      produceResumePdf = (\<lambda>w b en j. (Inl (ErrorObj ''Error'' ''render failed'' False), w)),
      insertResume = (\<lambda>w r. (None, w)),
      imapMarkAsRead = (\<lambda>w i p us. (None, w))\<rparr>"

definition exampleEmail :: emailContext where
  "exampleEmail =
     \<lparr>messageId = ''<m1@mail.example>'', subject = ''Backend Engineer at ACME'',
      from_hdr = ''ACME Jobs <jobs@acme.example>'', receivedAt = None,
      textBody = ''Apply at https://acme.example/jobs/1'', htmlBody = [],
      links = [\<lparr>link_url = ''https://acme.example/jobs/1'', link_text = []\<rparr>]\<rparr>"

definition exampleOpportunity :: opportunity where
  "exampleOpportunity =
     \<lparr>job_title = ''Backend Engineer at ACME'', company = ''ACME Jobs'', location = ''Unknown'',
      description = ''Apply at https://acme.example/jobs/1'', required_skills = [],
      posting_url = Some ''https://acme.example/jobs/1'',
      apply_url = Some ''https://acme.example/jobs/1'',
      confidence = Some (35 / 100),
      raw = JObj [(''fallback'', JBool True), (''email_id'', JStr ''<m1@mail.example>''),
                  (''extraction_error'', JStr ''fetch failed'')]\<rparr>"

text \<open>A run that has just been started, nothing written yet.\<close>

definition exampleRun :: "unit run" where
  "exampleRun =
     \<lparr>running = True, integrationsFound = 0, emailsScanned = 0, emailsKeywordMatched = 0,
      opportunitiesExtracted = 0, jobsInserted = 0, duplicateJobs = 0, resumesGenerated = 0,
      resumesFailed = 0, errors = [], world = (), calls = []\<rparr>"

text \<open>The scenario with the job not yet stored and the insert accepted.\<close>

definition insertingExt :: "unit ext" where
  "insertingExt =
     exampleExt\<lparr>selectJob := (\<lambda>w u m f. (Inr None, w)),
                insertJob := (\<lambda>w d. (Inr (JObj [(''id'', JStr ''j1'')]), w))\<rparr>"

text \<open>
  A second message, whose header has no date and whose envelope date is not a valid
  one, and the outside that delivers it after the first.
\<close>

definition undatedMessage :: rawMessage where
  "undatedMessage =
     \<lparr>uid = 8,
      msg_envelope = \<lparr>env_subject = Some ''Data Engineer at ACME'', env_from_name = Some ''ACME Jobs'',
                       env_from_address = Some ''jobs@acme.example'',
                       env_date = Some ''not a date'',
                       env_messageId = Some ''<m2@mail.example>''\<rparr>,
      sourceBuffer = ''Subject: Data Engineer at ACME''\<rparr>"

definition undatedMail :: parsedMail where
  "undatedMail =
     \<lparr>mail_subject = Some ''Data Engineer at ACME'', mail_from_text = Some ''ACME Jobs <jobs@acme.example>'',
      mail_date = None, mail_messageId = Some ''<m2@mail.example>'',
      mail_text = Some ''See the site'', mail_html = None\<rparr>"

definition undatedEmail :: emailContext where
  "undatedEmail =
     \<lparr>messageId = ''<m2@mail.example>'', subject = ''Data Engineer at ACME'',
      from_hdr = ''ACME Jobs <jobs@acme.example>'', receivedAt = Some ''not a date'',
      textBody = ''See the site'', htmlBody = [], links = []\<rparr>"


text \<open>The same outside with no integration configured.\<close>

definition idleExt :: "unit ext" where
  "idleExt = exampleExt\<lparr>selectIntegrations := (\<lambda>w. (Inr (Some []), w))\<rparr>"



definition pollRequest :: request where
  "pollRequest = \<lparr>req_method = ''POST'', req_pathname = ''/poll'', req_body = []\<rparr>"

definition healthRequest :: request where
  "healthRequest = \<lparr>req_method = ''GET'', req_pathname = ''/health'', req_body = []\<rparr>"

section \<open>Fingerprint: properties\<close>

lemma js_or_cases:
  "js_or a b = (if a = None \<or> a = Some [] then b else a)"
  by (auto simp: js_or_def split: option.splits list.splits)

text \<open>
  C1. The fingerprint is the digest of the four parts joined by \<open>|\<close>: the normalised
  (trimmed) message id, the normalised title in lower case, the normalised company in
  lower case, and the normalised apply URL, else the normalised posting URL, else the
  first 320 characters of the normalised description in lower case. Candidates that
  agree on title, company, the two URLs and the description have the same
  fingerprint, whatever their other fields hold.
\<close>

theorem buildJobFingerprint_spec:
  "buildJobFingerprint L emailId opp =
     sha256_hex L
       (normalizeString (Some emailId) [] @ ''|'' @
        toLowerCase (normalizeString (Some (job_title opp)) []) @ ''|'' @
        toLowerCase (normalizeString (Some (company opp)) []) @ ''|'' @
        (if normalizeUrl L (apply_url opp) \<notin> {None, Some []}
         then the (normalizeUrl L (apply_url opp))
         else if normalizeUrl L (posting_url opp) \<notin> {None, Some []}
         then the (normalizeUrl L (posting_url opp))
         else take 320 (toLowerCase (normalizeString (Some (description opp)) []))))
   \<and> (\<forall>opp'. job_title opp' = job_title opp \<and> company opp' = company opp
          \<and> apply_url opp' = apply_url opp \<and> posting_url opp' = posting_url opp
          \<and> description opp' = description opp
        \<longrightarrow> buildJobFingerprint L emailId opp' = buildJobFingerprint L emailId opp)"
  by (auto simp: buildJobFingerprint_def fingerprintDescriptor_def js_or_cases)

theorem buildJobFingerprint_spec_witness:
  "buildJobFingerprint exampleLib ''<m1@mail.example>''
     \<lparr>job_title = ''Backend Engineer'', company = ''ACME'', location = ''Remote'',
      description = ''Build services'', required_skills = [''go''],
      posting_url = Some ''https://acme.example/jobs/1'', apply_url = None,
      confidence = Some (7/10), raw = JObj [(''source'', JStr ''model'')]\<rparr>
   = buildJobFingerprint exampleLib ''<m1@mail.example>''
     \<lparr>job_title = ''Backend Engineer'', company = ''ACME'', location = ''Berlin'',
      description = ''Build services'', required_skills = [],
      posting_url = Some ''https://acme.example/jobs/1'', apply_url = None,
      confidence = None, raw = JNull\<rparr>"
  using buildJobFingerprint_spec [of exampleLib "''<m1@mail.example>''"
     "\<lparr>job_title = ''Backend Engineer'', company = ''ACME'', location = ''Berlin'',
      description = ''Build services'', required_skills = [],
      posting_url = Some ''https://acme.example/jobs/1'', apply_url = None,
      confidence = None, raw = JNull\<rparr>", THEN conjunct2, THEN spec, of
     "\<lparr>job_title = ''Backend Engineer'', company = ''ACME'', location = ''Remote'',
      description = ''Build services'', required_skills = [''go''],
      posting_url = Some ''https://acme.example/jobs/1'', apply_url = None,
      confidence = Some (7/10), raw = JObj [(''source'', JStr ''model'')]\<rparr>"]
  by simp

section \<open>Relevance filter: properties\<close>

lemma keywordMatch_subject_only:
  "keywordMatch e keywords False = (\<exists>k \<in> set keywords. js_includes (toLowerCase (subject e)) k)"
  by (simp add: keywordMatch_def list_ex_iff)

lemma keywordMatch_body_short_circuit:
  "keywordMatch e keywords True =
     ((\<exists>k \<in> set keywords. js_includes (toLowerCase (subject e)) k)
      \<or> (\<exists>k \<in> set keywords. js_includes (toLowerCase (textBody e)) k))"
  by (auto simp: keywordMatch_def list_ex_iff)

text \<open>
  C7. With no keyword configured the built-in list applies, and its entry \<open>Indeed\<close>
  is compared as written against the lower-cased subject and body: an email whose
  subject and body both contain \<open>Indeed\<close> is not matched, in either scope.
\<close>

theorem keywordMatch_default_Indeed_unmatched:
  "keywordMatch
     \<lparr>messageId = ''<m2@mail.example>'', subject = ''Indeed: 3 new jobs for you'',
      from_hdr = ''Indeed <alert@indeed.example>'', receivedAt = None,
      textBody = ''Indeed has new jobs'', htmlBody = [], links = []\<rparr>
     (effectiveKeywords None) True = False
   \<and> keywordMatch
     \<lparr>messageId = ''<m2@mail.example>'', subject = ''Indeed: 3 new jobs for you'',
      from_hdr = ''Indeed <alert@indeed.example>'', receivedAt = None,
      textBody = ''Indeed has new jobs'', htmlBody = [], links = []\<rparr>
     (effectiveKeywords (Some [])) False = False"
  by code_simp

section \<open>The request listener and the runs in flight\<close>

lemma handlePoll_finally:
  "fst (handlePoll L C X syncAll st) = None \<Longrightarrow> \<not> running (snd (handlePoll L C X syncAll st))"
  by (auto simp: handlePoll_def Let_def split: option.splits prod.splits sum.splits)

lemma backgroundPoll_not_running:
  "\<not> running (backgroundPoll L C X syncAll st)"
  by (auto simp: backgroundPoll_def handlePoll_def pushError_def Let_def
           split: option.splits prod.splits sum.splits)

lemma settle_not_running: "\<not> running (settle L C X f st)"
  by (auto simp: settle_def backgroundPoll_not_running pushError_def
           split: option.splits prod.splits)

lemma running_resetStats: "running (resetStats st)"
  by (simp add: resetStats_def)

lemma handleRequest_pending [simp]: "pending (snd (handleRequest L req s)) = pending s"
  by (simp add: handleRequest_def)

lemma handleRequest_state [simp]: "state (snd (handleRequest L req s)) = state s"
  by (simp add: handleRequest_def)

lemma step_running_in_flight:
  "running_in_flight s \<Longrightarrow> running_in_flight (step L C X s ev)"
  by (cases ev)
     (auto simp: step_def running_in_flight_def handleRequestBody_def Let_def settle_not_running)

lemma run_events_running_in_flight:
  "running_in_flight s \<Longrightarrow> running_in_flight (run_events L C X evs s)"
  by (induction evs arbitrary: s) (simp_all add: step_running_in_flight)

lemma initialServer_running_in_flight: "running_in_flight (initialServer w)"
  by (simp add: running_in_flight_def initialServer_def)

lemma poll_rejected_while_running:
  "req_method req = ''POST'' \<Longrightarrow> req_pathname req = ''/poll'' \<Longrightarrow> running (state s) \<Longrightarrow>
     handleRequest L req s =
       (Some \<lparr>res_status = 409,
              res_body = Some (JObj [(''error'', JStr ''A sync is already in progress. Please wait for it to finish.''),
                                     (''stats'', statsJson (state s))])\<rparr>, s)"
  by (simp add: handleRequest_def)

lemma poll_body_read:
  "res_status (fst (handleRequestBody L req s)) = 202
   \<and> state (snd (handleRequestBody L req s)) = resetStats (state s)
   \<and> res_body (fst (handleRequestBody L req s)) =
        Some (JObj [(''message'', JStr ''Polling started in background''),
                    (''stats'', statsJson (resetStats (state s)))])"
  by (simp add: handleRequestBody_def Let_def)

text \<open>
  C3. Two \<open>POST /poll\<close> requests arrive while no run is in progress, the second before
  the body of the first has been read. Neither is answered 409. When the two bodies
  have been read both are answered 202, each has reset the snapshot and started a run,
  and two runs are in flight.
\<close>

theorem overlapping_polls_both_accepted:
  "answers exampleLib exampleConfig exampleExt
     [Request pollRequest, Request pollRequest, BodyRead 0, BodyRead 0] (initialServer ())
     = [None, None, Some 202, Some 202]
   \<and> length (pending (run_events exampleLib exampleConfig exampleExt
        [Request pollRequest, Request pollRequest, BodyRead 0, BodyRead 0] (initialServer ()))) = 2"
  by (simp add: answer_def step_def handleRequest_def handleRequestBody_def pollRequest_def
                initialServer_def without_def Let_def)

text \<open>
  C4. When a background run has ended, \<open>running\<close> is cleared: by the \<open>finally\<close> of
  \<open>handlePoll\<close> when it returns (also after the exception it catches itself), and by
  the \<open>catch\<close> the server attaches when an exception escapes it; this holds for every
  run in flight, whichever settles. So once the only run in flight has settled no run
  is left and a \<open>POST /poll\<close> is accepted: it is not answered 409, and it is answered
  202 when its body has been read. The same holds in every state the process reaches
  with no run in flight. And whatever has happened in between, a \<open>POST /poll\<close> whose
  body has been read is answered 202.
\<close>

theorem run_always_ends_idle:
  "\<not> running (backgroundPoll L C X syncAll st)
   \<and> (fst (handlePoll L C X syncAll st) = None \<longrightarrow> \<not> running (snd (handlePoll L C X syncAll st)))
   \<and> (i < length (pending s) \<longrightarrow> \<not> running (state (step L C X s (Settle i))))
   \<and> (pending s = [f] \<and> req_method req = ''POST'' \<and> req_pathname req = ''/poll'' \<longrightarrow>
        \<not> running (state (step L C X s (Settle 0))) \<and> pending (step L C X s (Settle 0)) = []
        \<and> answers L C X [Request req, BodyRead (length (reading s))] (step L C X s (Settle 0))
            = [None, Some 202])
   \<and> (pending (run_events L C X evs (initialServer w)) = []
       \<and> req_method req = ''POST'' \<and> req_pathname req = ''/poll'' \<longrightarrow>
        answers L C X
          [Request req, BodyRead (length (reading (run_events L C X evs (initialServer w))))]
          (run_events L C X evs (initialServer w)) = [None, Some 202])
   \<and> res_status (fst (handleRequestBody L req s')) = 202"
proof -
  have inv: "running_in_flight (run_events L C X evs (initialServer w))"
    by (rule run_events_running_in_flight) (rule initialServer_running_in_flight)
  have accepted: "answers L C X [Request req, BodyRead (length (reading t))] t = [None, Some 202]"
    if "\<not> running (state t)" "req_method req = ''POST''" "req_pathname req = ''/poll''" for t
    using that
    by (simp add: answer_def step_def handleRequest_def handleRequestBody_def Let_def)
  have a: "\<not> running (backgroundPoll L C X syncAll st)"
    by (rule backgroundPoll_not_running)
  have b: "fst (handlePoll L C X syncAll st) = None \<longrightarrow> \<not> running (snd (handlePoll L C X syncAll st))"
    using handlePoll_finally by blast
  have c0: "i < length (pending s) \<longrightarrow> \<not> running (state (step L C X s (Settle i)))"
    by (simp add: step_def settle_not_running)
  have settled: "pending s = [f] \<Longrightarrow>
        \<not> running (state (step L C X s (Settle 0))) \<and> pending (step L C X s (Settle 0)) = []
        \<and> reading (step L C X s (Settle 0)) = reading s"
    by (simp add: step_def settle_not_running without_def)
  have c: "pending s = [f] \<and> req_method req = ''POST'' \<and> req_pathname req = ''/poll'' \<longrightarrow>
        \<not> running (state (step L C X s (Settle 0))) \<and> pending (step L C X s (Settle 0)) = []
        \<and> answers L C X [Request req, BodyRead (length (reading s))] (step L C X s (Settle 0))
            = [None, Some 202]"
    using settled accepted [of "step L C X s (Settle 0)"] by auto
  have d: "pending (run_events L C X evs (initialServer w)) = []
       \<and> req_method req = ''POST'' \<and> req_pathname req = ''/poll'' \<longrightarrow>
        answers L C X
          [Request req, BodyRead (length (reading (run_events L C X evs (initialServer w))))]
          (run_events L C X evs (initialServer w)) = [None, Some 202]"
    using inv accepted [of "run_events L C X evs (initialServer w)"]
    by (auto simp: running_in_flight_def)
  have e: "res_status (fst (handleRequestBody L req s')) = 202"
    by (simp add: handleRequestBody_def Let_def)
  from a b c0 c d e show ?thesis by blast
qed

theorem run_always_ends_idle_witness:
  "pending (run_events exampleLib exampleConfig exampleExt
              [Request pollRequest, BodyRead 0] (initialServer ()))
     = [\<lparr>flight_syncAll = False, flight_stats = None\<rparr>]
   \<and> \<not> running (state (run_events exampleLib exampleConfig exampleExt
              [Request pollRequest, BodyRead 0, Settle 0] (initialServer ())))
   \<and> answers exampleLib exampleConfig exampleExt
        [Request pollRequest, BodyRead 0, Settle 0, Request pollRequest, BodyRead 0]
        (initialServer ())
       = [None, Some 202, None, None, Some 202]"
proof -
  let ?s = "run_events exampleLib exampleConfig exampleExt
              [Request pollRequest, BodyRead 0] (initialServer ())"
  have p: "pending ?s = [\<lparr>flight_syncAll = False, flight_stats = None\<rparr>]"
    by (simp add: step_def handleRequest_def handleRequestBody_def pollRequest_def
                  initialServer_def without_def Let_def syncAllOf_def trim_def)
  have r: "reading ?s = []"
    by (simp add: step_def handleRequest_def handleRequestBody_def pollRequest_def
                  initialServer_def without_def Let_def)
  have post: "req_method pollRequest = ''POST'' \<and> req_pathname pollRequest = ''/poll''"
    by (simp add: pollRequest_def)
  have first: "answers exampleLib exampleConfig exampleExt
                 [Request pollRequest, BodyRead 0, Settle 0, Request pollRequest, BodyRead 0]
                 (initialServer ())
               = [None, Some 202, None]
                 @ answers exampleLib exampleConfig exampleExt
                     [Request pollRequest, BodyRead (length (reading ?s))]
                     (step exampleLib exampleConfig exampleExt ?s (Settle 0))"
    unfolding r
    by (simp add: answer_def step_def handleRequest_def handleRequestBody_def pollRequest_def
                  initialServer_def without_def Let_def)
  have last: "run_events exampleLib exampleConfig exampleExt
                [Request pollRequest, BodyRead 0, Settle 0] (initialServer ())
              = step exampleLib exampleConfig exampleExt ?s (Settle 0)"
    by simp
  show ?thesis
    unfolding first last
    using run_always_ends_idle [where L = exampleLib and C = exampleConfig and X = exampleExt
            and s = ?s and f = "\<lparr>flight_syncAll = False, flight_stats = None\<rparr>"
            and req = pollRequest and syncAll = False and st = "state (initialServer ())"
            and i = 0 and evs = "[]" and w = "()" and s' = "initialServer ()"] p post
    by simp
qed

section \<open>Health check\<close>

text \<open>
  C9, as stated, fails. The body of the answer to \<open>GET /health\<close> at start-up is not
  \<open>{ ok: true, running: false }\<close>; it has no member called \<open>running\<close>.
\<close>

theorem health_running_counterexample:
  "map_option res_body (fst (handleRequest exampleLib healthRequest (initialServer ())))
     = Some (Some (JObj [(''ok'', JBool True), (''pollRunning'', JBool False)]))
   \<and> map_option res_body (fst (handleRequest exampleLib healthRequest (initialServer ())))
       \<noteq> Some (Some (JObj [(''ok'', JBool True), (''running'', JBool False)]))
   \<and> getProp (Option.bind (fst (handleRequest exampleLib healthRequest (initialServer ())))
                res_body) ''running'' = None"
  by (simp add: handleRequest_def healthRequest_def initialServer_def)

text \<open>
  C9, amended. Every \<open>GET /health\<close> is answered at once with status 200 and the body
  \<open>{ ok: true, pollRunning: r }\<close>, where \<open>r\<close> is the current \<open>running\<close> flag; the state
  is not changed.
\<close>

theorem health_reports_pollRunning:
  "req_method req = ''GET'' \<and> req_pathname req = ''/health'' \<longrightarrow>
     handleRequest L req s =
       (Some \<lparr>res_status = 200,
              res_body = Some (JObj [(''ok'', JBool True),
                                     (''pollRunning'', JBool (running (state s)))])\<rparr>, s)"
  by (simp add: handleRequest_def)

theorem health_reports_pollRunning_witness:
  "handleRequest exampleLib healthRequest (initialServer ()) =
     (Some \<lparr>res_status = 200,
            res_body = Some (JObj [(''ok'', JBool True), (''pollRunning'', JBool False)])\<rparr>,
      initialServer ())"
  using health_reports_pollRunning [of healthRequest exampleLib "initialServer ()"]
  by (simp add: healthRequest_def initialServer_def)

section \<open>The configured timeout\<close>

lemma dedupeLinks_timeout [simp]:
  "dedupeLinks L (C\<lparr>POLL_TIMEOUT_MS := t\<rparr>) ls = dedupeLinks L C ls"
  by (simp add: dedupeLinks_def)

lemma buildFallbackOpportunity_timeout [simp]:
  "buildFallbackOpportunity (C\<lparr>POLL_TIMEOUT_MS := t\<rparr>) e = buildFallbackOpportunity C e"
  by (simp add: buildFallbackOpportunity_def)

lemma cleanOpportunity_timeout [simp]:
  "cleanOpportunity L (C\<lparr>POLL_TIMEOUT_MS := t\<rparr>) e = cleanOpportunity L C e"
  by (rule ext) (simp add: cleanOpportunity_def)

lemma generateStructuredJson_timeout [simp]:
  "generateStructuredJson L (C\<lparr>POLL_TIMEOUT_MS := t\<rparr>) X req w = generateStructuredJson L C X req w"
  by (simp add: generateStructuredJson_def)

lemma extract_timeout [simp]:
  "extractOpportunitiesFromEmail L (C\<lparr>POLL_TIMEOUT_MS := t\<rparr>) X e w
     = extractOpportunitiesFromEmail L C X e w"
  by (auto simp: extractOpportunitiesFromEmail_def Let_def split: prod.splits sum.splits option.splits)

lemma candidateUrls_timeout [simp]:
  "candidateUrls L (C\<lparr>POLL_TIMEOUT_MS := t\<rparr>) opp ls = candidateUrls L C opp ls"
  by (simp add: candidateUrls_def)

lemma enrich_timeout [simp]:
  "enrichOpportunityWithUrls L (C\<lparr>POLL_TIMEOUT_MS := t\<rparr>) X opp ls w
     = enrichOpportunityWithUrls L C X opp ls w"
  by (auto simp: enrichOpportunityWithUrls_def Let_def split: prod.splits sum.splits option.splits)

lemma normalizeMessage_timeout [simp]:
  "normalizeMessage L (C\<lparr>POLL_TIMEOUT_MS := t\<rparr>) mail message = normalizeMessage L C mail message"
  by (simp add: normalizeMessage_def)

lemma parseMessage_timeout [simp]:
  "parseMessage L (C\<lparr>POLL_TIMEOUT_MS := t\<rparr>) X message w = parseMessage L C X message w"
  by (auto simp: parseMessage_def Let_def split: prod.splits sum.splits option.splits)

lemma buildJobData_timeout [simp]:
  "buildJobData L (C\<lparr>POLL_TIMEOUT_MS := t\<rparr>) integ message e extracted en
     = buildJobData L C integ message e extracted en"
  by (simp add: buildJobData_def)

lemma processOpportunity_timeout [simp]:
  "processOpportunity L (C\<lparr>POLL_TIMEOUT_MS := t\<rparr>) X integ bp message e sp extracted
     = processOpportunity L C X integ bp message e sp extracted"
  by (auto simp: processOpportunity_def Let_def split: prod.splits sum.splits option.splits)

lemma opportunitiesLoop_timeout [simp]:
  "opportunitiesLoop L (C\<lparr>POLL_TIMEOUT_MS := t\<rparr>) X integ bp message e opps sp
     = opportunitiesLoop L C X integ bp message e opps sp"
  by (induction opps arbitrary: sp) simp_all

lemma messagePrelude_timeout [simp]:
  "messagePrelude L (C\<lparr>POLL_TIMEOUT_MS := t\<rparr>) X integ kw mib message st
     = messagePrelude L C X integ kw mib message st"
  by (auto simp: messagePrelude_def Let_def split: prod.splits sum.splits option.splits)

lemma processMessage_timeout [simp]:
  "processMessage L (C\<lparr>POLL_TIMEOUT_MS := t\<rparr>) X integ bp kw mib su message
     = processMessage L C X integ bp kw mib su message"
  by (auto simp: processMessage_def split: prelude.splits prod.splits)

lemma messagesLoop_timeout [simp]:
  "messagesLoop L (C\<lparr>POLL_TIMEOUT_MS := t\<rparr>) X integ bp kw mib msgs su
     = messagesLoop L C X integ bp kw mib msgs su"
  by (induction msgs arbitrary: su) (auto split: prod.splits option.splits)

lemma processIntegration_timeout [simp]:
  "processIntegration L (C\<lparr>POLL_TIMEOUT_MS := t\<rparr>) X syncAll st integ
     = processIntegration L C X syncAll st integ"
  by (auto simp: processIntegration_def Let_def split: prod.splits sum.splits option.splits)

lemma integrationsLoop_timeout [simp]:
  "integrationsLoop L (C\<lparr>POLL_TIMEOUT_MS := t\<rparr>) X syncAll integs st
     = integrationsLoop L C X syncAll integs st"
  by (induction integs arbitrary: st) simp_all

lemma handlePoll_timeout [simp]:
  "handlePoll L (C\<lparr>POLL_TIMEOUT_MS := t\<rparr>) X syncAll st = handlePoll L C X syncAll st"
  by (auto simp: handlePoll_def Let_def split: prod.splits sum.splits option.splits)

lemma backgroundPoll_timeout [simp]:
  "backgroundPoll L (C\<lparr>POLL_TIMEOUT_MS := t\<rparr>) X syncAll st = backgroundPoll L C X syncAll st"
  by (simp add: backgroundPoll_def)

lemma settle_timeout [simp]:
  "settle L (C\<lparr>POLL_TIMEOUT_MS := t\<rparr>) X f st = settle L C X f st"
  by (auto simp: settle_def split: option.splits prod.splits)

lemma step_timeout [simp]:
  "step L (C\<lparr>POLL_TIMEOUT_MS := t\<rparr>) X s ev = step L C X s ev"
  by (auto simp: step_def split: event.splits)



section \<open>Extraction: properties\<close>

lemma buildFallbackOpportunity_single:
  "\<exists>fb. buildFallbackOpportunity C e = [fb]
        \<and> job_title fb = subject e
        \<and> company fb = normalizeString (Some (beforeAngle (from_hdr e))) (from_hdr e)
        \<and> location fb = ''Unknown''
        \<and> description fb = truncate_str (textBody e) (MAX_DESCRIPTION_CHARS C)
        \<and> required_skills fb = []
        \<and> posting_url fb = firstLinkUrl (links e)
        \<and> apply_url fb = firstLinkUrl (links e)
        \<and> confidence fb = Some (35 / 100)
        \<and> getProp (Some (raw fb)) ''fallback'' = Some (JBool True)"
  by (simp add: buildFallbackOpportunity_def FALLBACK_CONFIDENCE_def Let_def)

lemma extract_disabled:
  "\<not> ai C \<Longrightarrow> extractOpportunitiesFromEmail L C X e w = (Inr (buildFallbackOpportunity C e), w)"
  by (simp add: extractOpportunitiesFromEmail_def)

lemma extract_returns_nonempty:
  "extractOpportunitiesFromEmail L C X e w = (Inr opps, w') \<Longrightarrow> opps \<noteq> []"
  by (auto simp: extractOpportunitiesFromEmail_def buildFallbackOpportunity_def Let_def
           split: prod.splits sum.splits if_splits)

lemma extract_throws_only_on_date:
  "extractOpportunitiesFromEmail L C X e w = (Inl err, w') \<Longrightarrow>
     ai C \<and> promptReceivedAt L e = Inl err \<and> w' = w"
  by (auto simp: extractOpportunitiesFromEmail_def Let_def
           split: prod.splits sum.splits if_splits)

lemma example_generation_fails:
  "generateStructuredJson exampleLib exampleConfig exampleExt req () =
     (Inl (ErrorObj ''Error'' ''fetch failed'' False), ())"
  by (simp add: generateStructuredJson_def exampleConfig_def exampleExt_def)

lemma undated_normalizeMessage:
  "normalizeMessage exampleLib exampleConfig undatedMail undatedMessage = undatedEmail"
  apply (simp add: normalizeMessage_def undatedMail_def undatedMessage_def undatedEmail_def Let_def
               js_or_def normalizeString_def trim_def isWhite_def)
  apply (simp add: dedupeLinks_def extractLinksFromHtml_def extractLinksFromText_def
               exampleLib_def List.map_filter_def normalizeUrl_def exampleConfig_def
               normalizeString_def trim_def isWhite_def startsWith_def js_or_def)
  done

lemma undated_promptReceivedAt:
  "promptReceivedAt exampleLib undatedEmail
     = Inl (ErrorObj ''RangeError'' ''Invalid time value'' False)"
  by (simp add: promptReceivedAt_def undatedEmail_def exampleLib_def js_or_def)

text \<open>
  C5. The generation capability is enabled. A message arrives whose header has no
  date and whose envelope date is not a valid one; the email context built from it
  carries that date. \<open>extractOpportunitiesFromEmail\<close> on this context does not return
  the fallback candidate: it throws a \<open>RangeError\<close>, from the conversion of the date
  for the prompt, which stands before its \<open>try\<close>.
\<close>

theorem extract_throws_on_invalid_date:
  "ai exampleConfig
   \<and> normalizeMessage exampleLib exampleConfig undatedMail undatedMessage = undatedEmail
   \<and> extractOpportunitiesFromEmail exampleLib exampleConfig exampleExt undatedEmail ()
       = (Inl (ErrorObj ''RangeError'' ''Invalid time value'' False), ())"
proof -
  have a: "ai exampleConfig"
    by (simp add: exampleConfig_def)
  then have "extractOpportunitiesFromEmail exampleLib exampleConfig exampleExt undatedEmail ()
       = (Inl (ErrorObj ''RangeError'' ''Invalid time value'' False), ())"
    by (simp add: extractOpportunitiesFromEmail_def undated_promptReceivedAt)
  with a undated_normalizeMessage show ?thesis by simp
qed

section \<open>Enrichment: properties\<close>

lemma normalizeUrl_trim_empty [simp]: "normalizeUrl L (Some []) = None"
  by (simp add: normalizeUrl_def trim_def)

lemma dedupeLinks_loop_none:
  "\<forall>l \<in> set ls. js_or (normalizeUrl L (Some (link_url l))) None = None \<Longrightarrow>
     dedupeLinks_loop L n ls acc = acc"
  by (induction ls arbitrary: acc) auto

lemma candidateUrls_none:
  assumes "normalizeUrl L (apply_url opp) = None"
      and "normalizeUrl L (posting_url opp) = None"
      and "\<forall>l \<in> set emailLinks. normalizeUrl L (Some (link_url l)) = None"
  shows "candidateUrls L C opp emailLinks = []"
proof -
  have a: "normalizeUrl L (Some (case js_or (apply_url opp) None of Some u \<Rightarrow> u | None \<Rightarrow> [])) = None"
    using assms(1) by (cases "apply_url opp") (auto simp: js_or_cases)
  have p: "normalizeUrl L (Some (case js_or (posting_url opp) None of Some u \<Rightarrow> u | None \<Rightarrow> [])) = None"
    using assms(2) by (cases "posting_url opp") (auto simp: js_or_cases)
  show ?thesis
    unfolding candidateUrls_def dedupeLinks_def
    using a p assms(3)
    by (subst dedupeLinks_loop_none) (auto simp: js_or_def)
qed

lemma truncate_withEnrichment [simp]:
  "opportunity.truncate (withEnrichment opp st er m) = opp"
  by (simp add: withEnrichment_def opportunity.truncate_def opportunity.extend_def)

lemma status_withEnrichment [simp]:
  "enrichment_status (withEnrichment opp st er m) = st"
  "enrichment_error (withEnrichment opp st er m) = er"
  "url_context_metadata (withEnrichment opp st er m) = m"
  by (simp_all add: withEnrichment_def opportunity.extend_def enriched.fields_def)

text \<open>
  C6. \<open>enrichOpportunityWithUrls\<close> returns a value in every case. With the capability
  disabled it returns the candidate as it is with status \<open>skipped_no_gemini\<close>; with the
  capability enabled and no URL of the candidate or of the email that normalises, it
  returns the candidate as it is with status \<open>skipped_no_urls\<close>; in both cases no
  request is sent. When the generation call fails it returns the candidate as it is
  with status \<open>error\<close> and the serialised failure as \<open>enrichment_error\<close>.
\<close>

theorem enrich_degrades:
  "(\<not> ai C \<longrightarrow>
      opportunity.truncate (fst (enrichOpportunityWithUrls L C X opp emailLinks w)) = opp
      \<and> enrichment_status (fst (enrichOpportunityWithUrls L C X opp emailLinks w))
          = ''skipped_no_gemini''
      \<and> snd (enrichOpportunityWithUrls L C X opp emailLinks w) = w)
   \<and> (ai C \<and> normalizeUrl L (apply_url opp) = None \<and> normalizeUrl L (posting_url opp) = None
       \<and> (\<forall>l \<in> set emailLinks. normalizeUrl L (Some (link_url l)) = None) \<longrightarrow>
      opportunity.truncate (fst (enrichOpportunityWithUrls L C X opp emailLinks w)) = opp
      \<and> enrichment_status (fst (enrichOpportunityWithUrls L C X opp emailLinks w))
          = ''skipped_no_urls''
      \<and> snd (enrichOpportunityWithUrls L C X opp emailLinks w) = w)
   \<and> (ai C \<and> candidateUrls L C opp emailLinks \<noteq> []
       \<and> generateStructuredJson L C X
            (EnrichmentRequest opp (take (MAX_LINKS_PER_EMAIL C) (candidateUrls L C opp emailLinks))) w
          = (Inl err, w') \<longrightarrow>
      opportunity.truncate (fst (enrichOpportunityWithUrls L C X opp emailLinks w)) = opp
      \<and> enrichment_status (fst (enrichOpportunityWithUrls L C X opp emailLinks w)) = ''error''
      \<and> enrichment_error (fst (enrichOpportunityWithUrls L C X opp emailLinks w))
          = Some (serializeError L err)
      \<and> url_context_metadata (fst (enrichOpportunityWithUrls L C X opp emailLinks w)) = None)"
proof -
  have none: "candidateUrls L C opp emailLinks = []"
    if "normalizeUrl L (apply_url opp) = None" "normalizeUrl L (posting_url opp) = None"
       "\<forall>l \<in> set emailLinks. normalizeUrl L (Some (link_url l)) = None"
    using that by (rule candidateUrls_none)
  show ?thesis
    using none by (auto simp: enrichOpportunityWithUrls_def)
qed


lemma example_candidateUrls:
  "candidateUrls exampleLib exampleConfig exampleOpportunity (links exampleEmail)
     = [''https://acme.example/jobs/1'']"
  by (simp add: candidateUrls_def dedupeLinks_def exampleOpportunity_def exampleEmail_def
                exampleConfig_def exampleLib_def normalizeUrl_def trim_def isWhite_def
                startsWith_def js_or_def normalizeString_def)

theorem enrich_degrades_witness:
  "enrichment_status (fst (enrichOpportunityWithUrls exampleLib exampleConfig exampleExt
       (exampleOpportunity\<lparr>posting_url := None, apply_url := None\<rparr>) [] ())) = ''skipped_no_urls''
   \<and> enrichment_status (fst (enrichOpportunityWithUrls exampleLib exampleConfig exampleExt
       exampleOpportunity (links exampleEmail) ())) = ''error''
   \<and> enrichment_error (fst (enrichOpportunityWithUrls exampleLib exampleConfig exampleExt
       exampleOpportunity (links exampleEmail) ())) = Some ''fetch failed''"
proof -
  have on: "ai exampleConfig" by (simp add: exampleConfig_def)
  have urls: "candidateUrls exampleLib exampleConfig exampleOpportunity (links exampleEmail) \<noteq> []"
    by (simp add: example_candidateUrls)
  have nourl: "normalizeUrl exampleLib (apply_url (exampleOpportunity\<lparr>posting_url := None, apply_url := None\<rparr>)) = None"
      "normalizeUrl exampleLib (posting_url (exampleOpportunity\<lparr>posting_url := None, apply_url := None\<rparr>)) = None"
    by (simp_all add: normalizeUrl_def)
  show ?thesis
    using enrich_degrades [where L = exampleLib and C = exampleConfig and X = exampleExt
            and opp = "exampleOpportunity\<lparr>posting_url := None, apply_url := None\<rparr>"
            and emailLinks = "[]" and w = "()"]
          enrich_degrades [where L = exampleLib and C = exampleConfig and X = exampleExt
            and opp = exampleOpportunity and emailLinks = "links exampleEmail" and w = "()"
            and err = "ErrorObj ''Error'' ''fetch failed'' False" and w' = "()"]
          on urls nourl example_generation_fails
    by simp
qed

section \<open>URLs\<close>

lemma normalizeUrl_http: "normalizeUrl L v = Some u \<Longrightarrow> isHttpUrl L u"
  by (auto simp: normalizeUrl_def isHttpUrl_def Let_def split: option.splits if_splits)

lemma httpUrlOrNull_normalizeUrl [simp]: "httpUrlOrNull L (normalizeUrl L v)"
  by (cases "normalizeUrl L v") (auto simp: httpUrlOrNull_def normalizeUrl_http)

lemma httpUrlOrNull_None [simp]: "httpUrlOrNull L None"
  by (simp add: httpUrlOrNull_def)

lemma httpUrlOrNull_js_or [simp]:
  "httpUrlOrNull L a \<Longrightarrow> httpUrlOrNull L b \<Longrightarrow> httpUrlOrNull L (js_or a b)"
  by (simp add: js_or_cases)

lemma dedupeLinks_loop_http:
  "\<forall>l \<in> set acc. isHttpUrl L (link_url l) \<Longrightarrow>
     \<forall>l \<in> set (dedupeLinks_loop L n ls acc). isHttpUrl L (link_url l)"
proof (induction ls arbitrary: acc)
  case Nil
  then show ?case by simp
next
  case (Cons l ls)
  show ?case
  proof (cases "js_or (normalizeUrl L (Some (link_url l))) None")
    case None
    then show ?thesis using Cons by simp
  next
    case (Some u)
    then have "normalizeUrl L (Some (link_url l)) = Some u"
      by (auto simp: js_or_cases split: if_splits)
    then have u: "isHttpUrl L u" by (rule normalizeUrl_http)
    let ?acc' = "if u \<in> link_url ` set acc then acc
                 else acc @ [\<lparr>link_url = u, link_text = normalizeString (Some (link_text l)) []\<rparr>]"
    have acc': "\<forall>l \<in> set ?acc'. isHttpUrl L (link_url l)"
      using Cons.prems u by auto
    show ?thesis
      using Some acc' Cons.IH [OF acc'] by (simp add: Let_def)
  qed
qed

lemma dedupeLinks_http: "\<forall>l \<in> set (dedupeLinks L C ls). isHttpUrl L (link_url l)"
  unfolding dedupeLinks_def by (rule dedupeLinks_loop_http) simp

lemma normalizeMessage_links_http:
  "\<forall>l \<in> set (links (normalizeMessage L C mail message)). isHttpUrl L (link_url l)"
  by (simp add: normalizeMessage_def Let_def dedupeLinks_http)

lemma firstLinkUrl_http:
  "\<forall>l \<in> set ls. isHttpUrl L (link_url l) \<Longrightarrow> httpUrlOrNull L (firstLinkUrl ls)"
  by (cases ls) (auto simp: firstLinkUrl_def js_or_cases httpUrlOrNull_def)

lemma extract_http:
  assumes "\<forall>l \<in> set (links e). isHttpUrl L (link_url l)"
      and "extractOpportunitiesFromEmail L C X e w = (Inr opps, w')"
      and "opp \<in> set opps"
  shows "httpUrlOrNull L (posting_url opp) \<and> httpUrlOrNull L (apply_url opp)"
  using assms firstLinkUrl_http [OF assms(1)]
  by (auto simp: extractOpportunitiesFromEmail_def buildFallbackOpportunity_def
                 cleanOpportunity_def Let_def
           split: if_splits prod.splits sum.splits)

lemma urls_withEnrichment [simp]:
  "posting_url (withEnrichment opp st er m) = posting_url opp"
  "apply_url (withEnrichment opp st er m) = apply_url opp"
  by (simp_all add: withEnrichment_def opportunity.extend_def)

lemma enrich_http:
  assumes "httpUrlOrNull L (posting_url opp)" and "httpUrlOrNull L (apply_url opp)"
  shows "httpUrlOrNull L (posting_url (fst (enrichOpportunityWithUrls L C X opp ls w)))
         \<and> httpUrlOrNull L (apply_url (fst (enrichOpportunityWithUrls L C X opp ls w)))"
  using assms
  by (auto simp: enrichOpportunityWithUrls_def Let_def split: prod.splits sum.splits)

lemma buildJobData_http:
  assumes "\<forall>l \<in> set (links e). isHttpUrl L (link_url l)"
      and "httpUrlOrNull L (posting_url en)" and "httpUrlOrNull L (apply_url en)"
  shows "httpUrlOrNull L (d_posting_url (buildJobData L C integ message e extracted en))
         \<and> httpUrlOrNull L (d_apply_url (buildJobData L C integ message e extracted en))"
  using assms firstLinkUrl_http [OF assms(1)]
  by (simp add: buildJobData_def primaryUrl_def)

section \<open>The run: URLs of inserted jobs\<close>

lemma addsHttpOnly_refl [simp]: "addsHttpOnly L st st"
  by (simp add: addsHttpOnly_def)

lemma addsHttpOnly_trans:
  "addsHttpOnly L st0 st1 \<Longrightarrow> addsHttpOnly L st1 st2 \<Longrightarrow> addsHttpOnly L st0 st2"
  by (auto simp: addsHttpOnly_def)

lemma addsHttpOnly_same_calls:
  "set (calls st1) \<subseteq> set (calls st0) \<union> range InsertResume \<union> range MarkAsRead
     \<Longrightarrow> addsHttpOnly L st0 st1"
  by (auto simp: addsHttpOnly_def)

lemma calls_pushError [simp]: "calls (pushError msg st) = calls st"
  by (simp add: pushError_def)

lemma calls_resumeStep:
  "set (calls (resumeStep L X integ bp en ij jd st)) \<subseteq> set (calls st) \<union> range InsertResume"
  by (auto simp: resumeStep_def Let_def split: prod.splits sum.splits option.splits)

lemma calls_processOpportunity:
  "set (calls (fst (processOpportunity L C X integ bp message e sp extracted)))
     \<subseteq> set (calls (fst sp)) \<union> range InsertResume
        \<union> {InsertJob (buildJobData L C integ message e extracted
                         (fst (enrichOpportunityWithUrls L C X extracted (links e) (world (fst sp)))))}"
proof -
  have r: "\<And>en ij jd st c. c \<in> set (calls (resumeStep L X integ bp en ij jd st))
             \<Longrightarrow> c \<in> set (calls st) \<or> c \<in> range InsertResume"
    using calls_resumeStep by blast
  show ?thesis
    by (auto simp: processOpportunity_def Let_def split: prod.splits sum.splits option.splits
             dest!: r)
qed

lemma processOpportunity_http:
  assumes "\<forall>l \<in> set (links e). isHttpUrl L (link_url l)"
      and "httpUrlOrNull L (posting_url extracted)" and "httpUrlOrNull L (apply_url extracted)"
  shows "addsHttpOnly L (fst sp) (fst (processOpportunity L C X integ bp message e sp extracted))"
proof -
  let ?en = "fst (enrichOpportunityWithUrls L C X extracted (links e) (world (fst sp)))"
  have en: "httpUrlOrNull L (posting_url ?en) \<and> httpUrlOrNull L (apply_url ?en)"
    using assms(2,3) by (rule enrich_http)
  have jd: "httpUrlOrNull L (d_posting_url (buildJobData L C integ message e extracted ?en))
            \<and> httpUrlOrNull L (d_apply_url (buildJobData L C integ message e extracted ?en))"
    using assms(1) en by (simp add: buildJobData_http)
  show ?thesis
    unfolding addsHttpOnly_def
    using calls_processOpportunity [of L C X integ bp message e sp extracted] jd
    by auto
qed


lemma opportunitiesLoop_http:
  assumes "\<forall>l \<in> set (links e). isHttpUrl L (link_url l)"
      and "\<forall>opp \<in> set opps. httpUrlOrNull L (posting_url opp) \<and> httpUrlOrNull L (apply_url opp)"
  shows "addsHttpOnly L (fst sp) (fst (opportunitiesLoop L C X integ bp message e opps sp))"
  using assms(2)
proof (induction opps arbitrary: sp)
  case Nil
  then show ?case by simp
next
  case (Cons x xs)
  have one: "addsHttpOnly L (fst sp) (fst (processOpportunity L C X integ bp message e sp x))"
    using assms(1) Cons.prems by (simp add: processOpportunity_http)
  have rest: "addsHttpOnly L (fst (processOpportunity L C X integ bp message e sp x))
                (fst (opportunitiesLoop L C X integ bp message e xs
                        (processOpportunity L C X integ bp message e sp x)))"
    using Cons by simp
  from one rest show ?case by (simp add: addsHttpOnly_trans)
qed

lemma messagePrelude_Thrown:
  "messagePrelude L C X integ kw mib message st = Thrown err st' \<Longrightarrow> calls st' = calls st"
  by (auto simp: messagePrelude_def split: prod.splits sum.splits if_splits)

lemma messagePrelude_Continue:
  "messagePrelude L C X integ kw mib message st = Continue st' \<Longrightarrow> calls st' = calls st"
  by (auto simp: messagePrelude_def split: prod.splits sum.splits if_splits)

lemma parseMessage_Inr:
  "parseMessage L C X message w = (Inr e, w1) \<Longrightarrow> \<exists>mail. e = normalizeMessage L C mail message"
  by (auto simp: parseMessage_def split: prod.splits sum.splits)

lemma messagePrelude_Extracted_from:
  "messagePrelude L C X integ kw mib message st = Extracted e opps st' \<Longrightarrow>
     \<exists>w1 w2 w3. parseMessage L C X message (world st) = (Inr e, w1)
        \<and> extractOpportunitiesFromEmail L C X e w2 = (Inr opps, w3)
        \<and> calls st' = calls st"
  by (auto simp: messagePrelude_def split: prod.splits sum.splits if_splits)

lemma messagePrelude_Extracted:
  assumes "messagePrelude L C X integ kw mib message st = Extracted e opps st'"
  shows "calls st' = calls st
         \<and> (\<forall>l \<in> set (links e). isHttpUrl L (link_url l))
         \<and> (\<forall>opp \<in> set opps. httpUrlOrNull L (posting_url opp) \<and> httpUrlOrNull L (apply_url opp))"
proof -
  obtain w1 w2 w3 where p: "parseMessage L C X message (world st) = (Inr e, w1)"
      and x: "extractOpportunitiesFromEmail L C X e w2 = (Inr opps, w3)"
      and c: "calls st' = calls st"
    using messagePrelude_Extracted_from [OF assms] by blast
  obtain mail where e: "e = normalizeMessage L C mail message"
    using parseMessage_Inr [OF p] by blast
  have l: "\<forall>l \<in> set (links e). isHttpUrl L (link_url l)"
    unfolding e by (rule normalizeMessage_links_http)
  have o: "\<forall>opp \<in> set opps. httpUrlOrNull L (posting_url opp) \<and> httpUrlOrNull L (apply_url opp)"
    using extract_http [OF l x] by blast
  show ?thesis using c l o by simp
qed

lemma processMessage_http:
  "addsHttpOnly L (fst su) (fst (snd (processMessage L C X integ bp kw mib su message)))"
proof (cases "messagePrelude L C X integ kw mib message (fst su)")
  case (Thrown err st')
  then show ?thesis
    by (simp add: processMessage_def addsHttpOnly_def messagePrelude_Thrown)
next
  case (Continue st')
  then show ?thesis
    by (simp add: processMessage_def addsHttpOnly_def messagePrelude_Continue)
next
  case (Extracted e opps st')
  note p = messagePrelude_Extracted [OF Extracted]
  have a: "addsHttpOnly L (fst su) st'"
    using p by (simp add: addsHttpOnly_def)
  have b: "addsHttpOnly L st' (fst (opportunitiesLoop L C X integ bp message e opps (st', False)))"
    using opportunitiesLoop_http [of e L opps "(st', False)"] p by simp
  show ?thesis
    using addsHttpOnly_trans [OF a b] Extracted
    by (auto simp: processMessage_def split: prod.splits)
qed

lemma messagesLoop_http:
  "addsHttpOnly L (fst su) (fst (snd (messagesLoop L C X integ bp kw mib msgs su)))"
proof (induction msgs arbitrary: su)
  case Nil
  then show ?case by simp
next
  case (Cons m ms)
  obtain thrown su' where pm: "processMessage L C X integ bp kw mib su m = (thrown, su')"
    by (cases "processMessage L C X integ bp kw mib su m")
  have one: "addsHttpOnly L (fst su) (fst su')"
    using processMessage_http [of L su C X integ bp kw mib m] by (simp add: pm)
  show ?case
  proof (cases thrown)
    case None
    then show ?thesis
      using addsHttpOnly_trans [OF one Cons.IH [of su']] by (simp add: pm)
  next
    case (Some err)
    then show ?thesis
      using one by (simp add: pm)
  qed
qed

lemma markPhase_http: "addsHttpOnly L (fst su) (markPhase L X integ pw su)"
  by (auto simp: markPhase_def addsHttpOnly_def Let_def split: prod.splits option.splits)

lemma calls_integrationCatch [simp]: "calls (integrationCatch L err st) = calls st"
  by (simp add: integrationCatch_def)

lemma integrationPrelude_calls:
  "integrationPrelude X syncAll integ st = Inl (err, st') \<Longrightarrow> calls st' = calls st"
  "integrationPrelude X syncAll integ st = Inr (pw, bp, msgs, st') \<Longrightarrow> calls st' = calls st"
  by (auto simp: integrationPrelude_def split: prod.splits sum.splits)

lemma processIntegration_http:
  "addsHttpOnly L st (processIntegration L C X syncAll st integ)"
proof (cases "integrationPrelude X syncAll integ st")
  case (Inl r)
  obtain err st' where r: "r = (err, st')" by (cases r) auto
  show ?thesis
    using Inl r integrationPrelude_calls(1) [of X syncAll integ st err st']
    by (simp add: processIntegration_def addsHttpOnly_def)
next
  case (Inr r)
  obtain pw bp msgs st1 where r: "r = (pw, bp, msgs, st1)" by (cases r) auto
  have a: "addsHttpOnly L st st1"
    using Inr r integrationPrelude_calls(2) [of X syncAll integ st pw bp msgs st1]
    by (simp add: addsHttpOnly_def)
  let ?kw = "effectiveKeywords (job_keywords integ)"
  let ?mib = "matchInBody_of (keyword_match_scope integ)"
  obtain thrown su where ml: "messagesLoop L C X integ bp ?kw ?mib msgs (st1, []) = (thrown, su)"
    by (cases "messagesLoop L C X integ bp ?kw ?mib msgs (st1, [])")
  have b: "addsHttpOnly L st1 (fst su)"
    using messagesLoop_http [of L "(st1, [])" C X integ bp ?kw ?mib msgs] by (simp add: ml)
  show ?thesis
  proof (cases thrown)
    case None
    have c: "addsHttpOnly L (fst su) (markPhase L X integ pw su)"
      by (rule markPhase_http)
    show ?thesis
      using addsHttpOnly_trans [OF a addsHttpOnly_trans [OF b c]] Inr r ml None
      by (simp add: processIntegration_def Let_def)
  next
    case (Some err)
    have c: "addsHttpOnly L (fst su) (integrationCatch L err (fst su))"
      by (simp add: addsHttpOnly_def)
    show ?thesis
      using addsHttpOnly_trans [OF a addsHttpOnly_trans [OF b c]] Inr r ml Some
      by (simp add: processIntegration_def Let_def)
  qed
qed

lemma integrationsLoop_http:
  "addsHttpOnly L st (integrationsLoop L C X syncAll integs st)"
proof (induction integs arbitrary: st)
  case Nil
  then show ?case by simp
next
  case (Cons integ rest)
  show ?case
    using addsHttpOnly_trans [OF processIntegration_http Cons.IH] by simp
qed

lemma handlePoll_http:
  "addsHttpOnly L st (snd (handlePoll L C X syncAll st))"
proof -
  have loop: "\<And>integs w n. addsHttpOnly L st
      (integrationsLoop L C X syncAll integs (st\<lparr>world := w, integrationsFound := n\<rparr>))"
  proof -
    fix integs w n
    have "addsHttpOnly L st (st\<lparr>world := w, integrationsFound := n\<rparr>)"
      by (simp add: addsHttpOnly_def)
    then show "addsHttpOnly L st
      (integrationsLoop L C X syncAll integs (st\<lparr>world := w, integrationsFound := n\<rparr>))"
      using addsHttpOnly_trans integrationsLoop_http by blast
  qed
  have fin: "\<And>s. addsHttpOnly L st s \<Longrightarrow> addsHttpOnly L st (s\<lparr>running := False\<rparr>)"
    by (simp add: addsHttpOnly_def)
  show ?thesis
    by (auto simp: handlePoll_def Let_def split: option.splits prod.splits sum.splits
             intro!: fin loop)
       (simp_all add: addsHttpOnly_def)
qed

lemma backgroundPoll_http:
  "addsHttpOnly L st (backgroundPoll L C X syncAll st)"
  using handlePoll_http [of L st C X syncAll]
  by (auto simp: backgroundPoll_def addsHttpOnly_def split: prod.splits option.splits)

text \<open>
  C10. The links of a normalised email are all http or https URLs. Every job a run
  asks the store to insert has a \<open>posting_url\<close> and an \<open>apply_url\<close> that are null or
  an http or https URL. And \<open>normalizeUrl\<close> returns a value only for a string that,
  trimmed, parses as a URL with protocol \<open>http:\<close> or \<open>https:\<close>, and the value is that
  URL's serialisation; anything else is rejected.
\<close>

theorem urls_http_only:
  "(\<forall>l \<in> set (links (normalizeMessage L C mail message)). isHttpUrl L (link_url l))
   \<and> (\<forall>jd. InsertJob jd \<in> set (calls (backgroundPoll L C X syncAll st)) \<longrightarrow>
          InsertJob jd \<in> set (calls st)
          \<or> ((d_posting_url jd = None \<or> (\<exists>u. d_posting_url jd = Some u \<and> isHttpUrl L u))
              \<and> (d_apply_url jd = None \<or> (\<exists>u. d_apply_url jd = Some u \<and> isHttpUrl L u))))
   \<and> (\<forall>v u. normalizeUrl L v = Some u \<longrightarrow>
          (\<exists>s p. v = Some s \<and> URL_parse L (trim s) = Some p
                 \<and> protocol p \<in> {''http:'', ''https:''} \<and> u = href p))"
proof -
  have a: "\<forall>l \<in> set (links (normalizeMessage L C mail message)). isHttpUrl L (link_url l)"
    by (rule normalizeMessage_links_http)
  have b: "\<forall>jd. InsertJob jd \<in> set (calls (backgroundPoll L C X syncAll st)) \<longrightarrow>
          InsertJob jd \<in> set (calls st)
          \<or> ((d_posting_url jd = None \<or> (\<exists>u. d_posting_url jd = Some u \<and> isHttpUrl L u))
              \<and> (d_apply_url jd = None \<or> (\<exists>u. d_apply_url jd = Some u \<and> isHttpUrl L u)))"
  proof (intro allI impI)
    fix jd
    assume "InsertJob jd \<in> set (calls (backgroundPoll L C X syncAll st))"
    then have "InsertJob jd \<in> set (calls st)
        \<or> (httpUrlOrNull L (d_posting_url jd) \<and> httpUrlOrNull L (d_apply_url jd))"
      using backgroundPoll_http [of L st C X syncAll] by (simp add: addsHttpOnly_def)
    then show "InsertJob jd \<in> set (calls st)
          \<or> ((d_posting_url jd = None \<or> (\<exists>u. d_posting_url jd = Some u \<and> isHttpUrl L u))
              \<and> (d_apply_url jd = None \<or> (\<exists>u. d_apply_url jd = Some u \<and> isHttpUrl L u)))"
      by (cases "d_posting_url jd"; cases "d_apply_url jd") (auto simp: httpUrlOrNull_def)
  qed
  have c: "\<forall>v u. normalizeUrl L v = Some u \<longrightarrow>
          (\<exists>s p. v = Some s \<and> URL_parse L (trim s) = Some p
                 \<and> protocol p \<in> {''http:'', ''https:''} \<and> u = href p)"
    by (auto simp: normalizeUrl_def Let_def split: option.splits if_splits)
  from a b c show ?thesis by blast
qed

section \<open>The run: duplicates\<close>

lemma processOpportunity_keeps_persisted:
  "snd sp \<Longrightarrow> snd (processOpportunity L C X integ bp message e sp extracted)"
  by (auto simp: processOpportunity_def Let_def split: prod.splits sum.splits option.splits)

lemma opportunitiesLoop_keeps_persisted:
  "snd sp \<Longrightarrow> snd (opportunitiesLoop L C X integ bp message e xs sp)"
  by (induction xs arbitrary: sp) (simp_all add: processOpportunity_keeps_persisted)

lemma markPhase_marks:
  "snd su \<noteq> [] \<Longrightarrow> MarkAsRead (snd su) \<in> set (calls (markPhase L X integ pw su))"
  by (auto simp: markPhase_def Let_def split: prod.splits option.splits)


section \<open>The scenario, evaluated\<close>

lemma example_normalize:
  "normalizeMessage exampleLib exampleConfig exampleMail exampleMessage = exampleEmail"
  apply (simp add: normalizeMessage_def exampleMail_def exampleMessage_def exampleEmail_def Let_def
               js_or_def normalizeString_def trim_def isWhite_def)
  apply (simp add: dedupeLinks_def extractLinksFromHtml_def extractLinksFromText_def
               exampleLib_def List.map_filter_def normalizeUrl_def exampleConfig_def
               normalizeString_def trim_def isWhite_def startsWith_def js_or_def)
  done

lemma example_keywords:
  "effectiveKeywords (job_keywords exampleIntegration) = [''engineer'']"
  by code_simp

lemma example_keywordMatch: "keywordMatch exampleEmail [''engineer''] False"
  by code_simp


lemma scenario_generation_fails:
  "generateContent X = generateContent exampleExt \<Longrightarrow>
   generateStructuredJson exampleLib exampleConfig X req ()
     = (Inl (ErrorObj ''Error'' ''fetch failed'' False), ())"
  by (simp add: generateStructuredJson_def exampleConfig_def exampleExt_def)

lemma scenario_extract:
  assumes g: "generateContent X = generateContent exampleExt"
  shows "extractOpportunitiesFromEmail exampleLib exampleConfig X exampleEmail ()
           = (Inr [exampleOpportunity], ())"
proof -
  have r: "promptReceivedAt exampleLib exampleEmail = Inr None"
    by (simp add: promptReceivedAt_def exampleEmail_def js_or_def)
  show ?thesis
    apply (simp add: extractOpportunitiesFromEmail_def scenario_generation_fails [OF g] r)
    apply (simp add: exampleConfig_def buildFallbackOpportunity_def exampleEmail_def
               exampleOpportunity_def beforeAngle_def normalizeString_def trim_def isWhite_def
               truncate_str_def firstLinkUrl_def js_or_def FALLBACK_CONFIDENCE_def)
    done
qed

lemma scenario_enrich:
  assumes g: "generateContent X = generateContent exampleExt"
  shows "enrichOpportunityWithUrls exampleLib exampleConfig X exampleOpportunity
           (links exampleEmail) ()
         = (withEnrichment exampleOpportunity ''error'' (Some ''fetch failed'') None, ())"
  by (simp add: enrichOpportunityWithUrls_def example_candidateUrls scenario_generation_fails [OF g])
     (simp add: exampleConfig_def)

lemma scenario_prelude:
  assumes g: "generateContent X = generateContent exampleExt"
      and sp: "simpleParser X () (sourceBuffer exampleMessage) = (Inr exampleMail, ())"
      and cj: "countJobsForEmail X = countJobsForEmail exampleExt"
      and w: "world st = ()"
  shows "messagePrelude exampleLib exampleConfig X exampleIntegration [''engineer''] False
           exampleMessage st
         = Extracted exampleEmail [exampleOpportunity]
             (st\<lparr>world := (), emailsKeywordMatched := emailsKeywordMatched st + 1,
                 opportunitiesExtracted := opportunitiesExtracted st + 1\<rparr>)"
proof -
  have p: "parseMessage exampleLib exampleConfig X exampleMessage () = (Inr exampleEmail, ())"
    by (simp add: parseMessage_def sp example_normalize)
  have c: "countJobsForEmail X () (user_id exampleIntegration) (messageId exampleEmail)
           = (Inl (ErrorObj ''Error'' ''statement timeout'' False), ())"
    by (simp add: cj exampleExt_def)
  show ?thesis
    by (simp add: messagePrelude_def p c scenario_extract [OF g] example_keywordMatch)
qed





lemma example_matchInBody: "matchInBody_of (keyword_match_scope exampleIntegration) = False"
  by (simp add: matchInBody_of_def exampleIntegration_def)





lemma inserting_processOpportunity:
  assumes "world st = ()"
  shows "calls (fst (processOpportunity exampleLib exampleConfig insertingExt exampleIntegration
           bp exampleMessage exampleEmail (st, p) exampleOpportunity))
         = calls st @ [InsertJob (buildJobData exampleLib exampleConfig exampleIntegration
                                    exampleMessage exampleEmail exampleOpportunity
                                    (withEnrichment exampleOpportunity ''error''
                                       (Some ''fetch failed'') None))]"
proof -
  have g: "generateContent insertingExt = generateContent exampleExt"
    by (simp add: insertingExt_def)
  have enr: "enrichOpportunityWithUrls exampleLib exampleConfig insertingExt exampleOpportunity
               (links exampleEmail) ()
             = (withEnrichment exampleOpportunity ''error'' (Some ''fetch failed'') None, ())"
    by (rule scenario_enrich [OF g])
  have sj: "\<And>w u m f. selectJob insertingExt w u m f = (Inr None, w)"
    by (simp add: insertingExt_def)
  have ij: "\<And>w d. insertJob insertingExt w d = (Inr (JObj [(''id'', JStr ''j1'')]), w)"
    by (simp add: insertingExt_def)
  have pr: "\<And>w b en j. produceResumePdf insertingExt w b en j
              = (Inl (ErrorObj ''Error'' ''render failed'' False), w)"
    by (simp add: insertingExt_def exampleExt_def)
  show ?thesis
    by (simp add: processOpportunity_def enr sj ij pr resumeStep_def Let_def)
qed

lemma markPhase_calls_mono: "set (calls (fst su)) \<subseteq> set (calls (markPhase L X integ pw su))"
  by (auto simp: markPhase_def Let_def split: prod.splits option.splits)

lemma inserting_integration:
  assumes "world st = ()"
  shows "InsertJob (buildJobData exampleLib exampleConfig exampleIntegration
                      exampleMessage exampleEmail exampleOpportunity
                      (withEnrichment exampleOpportunity ''error'' (Some ''fetch failed'') None))
         \<in> set (calls (processIntegration exampleLib exampleConfig insertingExt False st
                          exampleIntegration))"
proof -
  let ?st1 = "st\<lparr>world := (), emailsScanned := emailsScanned st + length [exampleMessage]\<rparr>"
  let ?jd = "buildJobData exampleLib exampleConfig exampleIntegration
                      exampleMessage exampleEmail exampleOpportunity
                      (withEnrichment exampleOpportunity ''error'' (Some ''fetch failed'') None)"
  have pre: "integrationPrelude insertingExt False exampleIntegration st
               = Inr (''secret'', defaultProfile, [exampleMessage], ?st1)"
    using assms
    by (simp add: integrationPrelude_def insertingExt_def exampleExt_def fetchBaseProfile_def)
  have w1: "world ?st1 = ()" by simp
  let ?st2 = "?st1\<lparr>world := (), emailsKeywordMatched := emailsKeywordMatched ?st1 + 1,
                      opportunitiesExtracted := opportunitiesExtracted ?st1 + 1\<rparr>"
  have g: "generateContent insertingExt = generateContent exampleExt"
    by (simp add: insertingExt_def)
  have sp: "simpleParser insertingExt () (sourceBuffer exampleMessage) = (Inr exampleMail, ())"
    by (simp add: insertingExt_def exampleExt_def)
  have cj: "countJobsForEmail insertingExt = countJobsForEmail exampleExt"
    by (simp add: insertingExt_def)
  have prelude: "messagePrelude exampleLib exampleConfig insertingExt exampleIntegration
                   [''engineer''] False exampleMessage ?st1
                 = Extracted exampleEmail [exampleOpportunity] ?st2"
    by (rule scenario_prelude [OF g sp cj w1])
  have po: "calls (fst (processOpportunity exampleLib exampleConfig insertingExt exampleIntegration
              defaultProfile exampleMessage exampleEmail (?st2, False) exampleOpportunity))
            = calls ?st2 @ [InsertJob ?jd]"
    by (rule inserting_processOpportunity) simp
  let ?pm = "processMessage exampleLib exampleConfig insertingExt
           exampleIntegration defaultProfile [''engineer''] False (?st1, []) exampleMessage"
  have none: "fst ?pm = None"
    using prelude by (simp add: processMessage_def case_prod_beta)
  have "InsertJob ?jd \<in> set (calls (fst (snd ?pm)))"
    using po prelude by (simp add: processMessage_def case_prod_beta)
  then have "InsertJob ?jd \<in> set (calls (markPhase exampleLib insertingExt exampleIntegration
           ''secret'' (snd ?pm)))"
    using markPhase_calls_mono by blast
  moreover have "processIntegration exampleLib exampleConfig insertingExt False st
                   exampleIntegration
                 = markPhase exampleLib insertingExt exampleIntegration ''secret'' (snd ?pm)"
    using none pre
    by (cases ?pm)
       (simp add: processIntegration_def example_keywords example_matchInBody)
  ultimately show ?thesis by simp
qed

lemma inserting_run:
  "InsertJob (buildJobData exampleLib exampleConfig exampleIntegration
                exampleMessage exampleEmail exampleOpportunity
                (withEnrichment exampleOpportunity ''error'' (Some ''fetch failed'') None))
   \<in> set (calls (backgroundPoll exampleLib exampleConfig insertingExt False exampleRun))"
proof -
  have sel: "\<And>w. selectIntegrations insertingExt w = (Inr (Some [exampleIntegration]), w)"
    by (simp add: insertingExt_def exampleExt_def)
  have cc: "createClient insertingExt = None"
    by (simp add: insertingExt_def exampleExt_def)
  show ?thesis
    using inserting_integration [of "exampleRun\<lparr>world := (), integrationsFound := 1\<rparr>"]
    by (simp add: backgroundPoll_def handlePoll_def sel cc)
qed

theorem urls_http_only_witness:
  "isHttpUrl exampleLib ''https://acme.example/jobs/1''
   \<and> httpUrlOrNull exampleLib
         (d_posting_url (buildJobData exampleLib exampleConfig exampleIntegration
                exampleMessage exampleEmail exampleOpportunity
                (withEnrichment exampleOpportunity ''error'' (Some ''fetch failed'') None)))
   \<and> httpUrlOrNull exampleLib
         (d_apply_url (buildJobData exampleLib exampleConfig exampleIntegration
                exampleMessage exampleEmail exampleOpportunity
                (withEnrichment exampleOpportunity ''error'' (Some ''fetch failed'') None)))"
proof -
  have l: "links (normalizeMessage exampleLib exampleConfig exampleMail exampleMessage)
             = [\<lparr>link_url = ''https://acme.example/jobs/1'', link_text = []\<rparr>]"
    by (simp add: example_normalize exampleEmail_def)
  have fresh: "InsertJob (buildJobData exampleLib exampleConfig exampleIntegration
                exampleMessage exampleEmail exampleOpportunity
                (withEnrichment exampleOpportunity ''error'' (Some ''fetch failed'') None))
               \<notin> set (calls exampleRun)"
    by (simp add: exampleRun_def)
  show ?thesis
    using urls_http_only [of exampleLib exampleConfig exampleMail exampleMessage insertingExt
                            False exampleRun]
          l inserting_run fresh
    by (auto simp: httpUrlOrNull_def)
qed

end
